theory Spec2Isabelle
  imports Main "HOL-Library.Word"
begin

text \<open>
  Package \<open>gcsurl\<close> issues signed upload and download URLs for objects of a
  storage bucket. This theory embeds the package (\<open>gcsurl.go\<close>) in HOL: its
  constructors, which resolve bucket, expiry, restrictions and credentials from their
  arguments and the environment; the validation of file names against the restriction
  policy; the table of content types; the derivation of unique object names; and the
  upload and download operations. The properties of the specification are proved about
  these definitions.
\<close>

section \<open>Go standard-library functions used by package gcsurl\<close>

text \<open>
  Go strings are byte strings; they are modelled as \<^typ>\<open>string\<close>. \<open>int64\<close>,
  \<open>time.Duration\<close> and (on a 64-bit platform) \<open>int\<close> are 64-bit words read as
  two's complement, so that the wrap-around of \<open>*\<close> is the one of the program.
\<close>

type_synonym int64 = "64 word"
type_synonym byte = "8 word"

subsection \<open>Package strings\<close>

text \<open>
  \<open>strings.ToLower\<close> and \<open>strings.TrimSpace\<close> work on the bytes themselves as
  long as the string is ASCII, and go through the Unicode tables of the Go library
  otherwise. The tables are not part of the package: the three library functions that
  read them are parameters of the model.
  \<^item> \<open>Map_ToLower s\<close> is \<open>strings.Map(unicode.ToLower, s)\<close>;
  \<^item> \<open>TrimFunc_IsSpace s\<close> is \<open>strings.TrimFunc(s, unicode.IsSpace)\<close>;
  \<^item> \<open>TrimRightFunc_IsSpace s\<close> is \<open>strings.TrimRightFunc(s, unicode.IsSpace)\<close>.
\<close>

record unicode =
  Map_ToLower :: "string \<Rightarrow> string"
  TrimFunc_IsSpace :: "string \<Rightarrow> string"
  TrimRightFunc_IsSpace :: "string \<Rightarrow> string"

definition isASCII :: "char \<Rightarrow> bool" where
  "isASCII c \<longleftrightarrow> (of_char c :: nat) < 128"

definition isUpper :: "char \<Rightarrow> bool" where
  "isUpper c \<longleftrightarrow> 65 \<le> (of_char c :: nat) \<and> (of_char c :: nat) \<le> 90"

definition toLower :: "char \<Rightarrow> char" where
  "toLower c = (if isUpper c then char_of ((of_char c :: nat) + 32) else c)"

text \<open>
  \<open>strings.ToLower\<close>: a string of ASCII bytes only has its letters \<open>A\<close> ..
  \<open>Z\<close> replaced; any other string is mapped rune by rune with \<open>unicode.ToLower\<close>.
\<close>

definition strings_ToLower :: "unicode \<Rightarrow> string \<Rightarrow> string" where
  "strings_ToLower U s = (if list_all isASCII s then map toLower s else Map_ToLower U s)"

text \<open>The table \<open>asciiSpace\<close>: tab, line feed, vertical tab, form feed, carriage
  return and space.\<close>

definition isSpace :: "char \<Rightarrow> bool" where
  "isSpace c \<longleftrightarrow> (of_char c :: nat) \<in> {9, 10, 11, 12, 13, 32}"

text \<open>
  \<open>strings.TrimSpace\<close>: the first loop skips ASCII white space from the start and
  hands the rest to \<open>TrimFunc\<close> at a byte that is not ASCII (\<open>Inl\<close> is that
  early return); the second loop does the same from the end, on the reversed rest, with
  \<open>TrimRightFunc\<close>.
\<close>

fun trimStart :: "unicode \<Rightarrow> string \<Rightarrow> string + string" where
  "trimStart U [] = Inr []"
| "trimStart U (c # cs) =
     (if \<not> isASCII c then Inl (TrimFunc_IsSpace U (c # cs))
      else if isSpace c then trimStart U cs
      else Inr (c # cs))"

fun trimStop :: "unicode \<Rightarrow> string \<Rightarrow> string" where
  "trimStop U [] = []"
| "trimStop U (c # cs) =
     (if \<not> isASCII c then TrimRightFunc_IsSpace U (rev (c # cs))
      else if isSpace c then trimStop U cs
      else rev (c # cs))"

definition strings_TrimSpace :: "unicode \<Rightarrow> string \<Rightarrow> string" where
  "strings_TrimSpace U s =
     (case trimStart U s of
        Inl r \<Rightarrow> r
      | Inr t \<Rightarrow> trimStop U (rev t))"

definition strings_HasPrefix :: "string \<Rightarrow> string \<Rightarrow> bool" where
  "strings_HasPrefix s p \<longleftrightarrow> length p \<le> length s \<and> take (length p) s = p"

definition strings_HasSuffix :: "string \<Rightarrow> string \<Rightarrow> bool" where
  "strings_HasSuffix s x \<longleftrightarrow> length x \<le> length s \<and> drop (length s - length x) s = x"

definition strings_TrimSuffix :: "string \<Rightarrow> string \<Rightarrow> string" where
  "strings_TrimSuffix s x =
     (if strings_HasSuffix s x then take (length s - length x) s else s)"

text \<open>\<open>strings.Split(s, sep)\<close> for a separator of one byte: always at least one piece.\<close>

fun strings_Split :: "string \<Rightarrow> char \<Rightarrow> string list" where
  "strings_Split [] sep = [[]]"
| "strings_Split (c # cs) sep =
     (if c = sep then [] # strings_Split cs sep
      else (c # hd (strings_Split cs sep)) # tl (strings_Split cs sep))"

fun strings_Join :: "string list \<Rightarrow> string \<Rightarrow> string" where
  "strings_Join [] sep = []"
| "strings_Join [e] sep = e"
| "strings_Join (e # f # es) sep = e @ sep @ strings_Join (f # es) sep"

subsection \<open>Package strconv\<close>

text \<open>
  \<open>strconv.ParseInt(s, 10, 64)\<close> and \<open>strconv.Atoi(s)\<close> (64-bit \<open>int\<close>) accept an
  optional sign followed by one or more decimal digits, and fail when the value does not
  fit 64 bits. \<open>None\<close> is the error return.
\<close>

definition isDigit :: "char \<Rightarrow> bool" where
  "isDigit c \<longleftrightarrow> 48 \<le> (of_char c :: nat) \<and> (of_char c :: nat) \<le> 57"

fun digitsValue :: "int \<Rightarrow> string \<Rightarrow> int option" where
  "digitsValue n [] = Some n"
| "digitsValue n (c # cs) =
     (if isDigit c then digitsValue (n * 10 + ((of_char c :: int) - 48)) cs else None)"

definition strconv_ParseInt :: "string \<Rightarrow> int64 option" where
  "strconv_ParseInt s =
     (let neg = (s \<noteq> [] \<and> hd s = CHR ''-'');
          ds = (if s \<noteq> [] \<and> (hd s = CHR ''+'' \<or> hd s = CHR ''-'') then tl s else s)
      in if ds = [] then None
         else (case digitsValue 0 ds of
                 None \<Rightarrow> None
               | Some un \<Rightarrow>
                   if \<not> neg \<and> un \<ge> 2 ^ 63 then None
                   else if neg \<and> un > 2 ^ 63 then None
                   else Some (if neg then - word_of_int un else word_of_int un)))"

definition strconv_Atoi :: "string \<Rightarrow> int64 option" where
  "strconv_Atoi s = strconv_ParseInt s"

subsection \<open>Package path/filepath (Unix: the separator is the slash)\<close>

abbreviation Separator :: char where
  "Separator \<equiv> CHR ''/''"

text \<open>
  \<open>filepath.Clean\<close> works element by element: empty elements and \<open>.\<close> are dropped,
  \<open>..\<close> removes the element before it when there is one to remove, is dropped at the
  root, and is kept at the start of a relative path. The elements kept so far are held
  in reverse order.
\<close>

definition cleanStep :: "bool \<Rightarrow> string list \<Rightarrow> string \<Rightarrow> string list" where
  "cleanStep rooted out e =
     (if e = [] \<or> e = ''.'' then out
      else if e = ''..'' then
        (if out \<noteq> [] \<and> hd out \<noteq> ''..'' then tl out
         else if \<not> rooted then ''..'' # out
         else out)
      else e # out)"

definition filepath_Clean :: "string \<Rightarrow> string" where
  "filepath_Clean path =
     (if path = [] then ''.''
      else
        (let rooted = (hd path = Separator);
             out = foldl (cleanStep rooted) [] (strings_Split path Separator);
             s = (if rooted then [Separator] else []) @ strings_Join (rev out) [Separator]
         in if s = [] then ''.'' else s))"

text \<open>The loop of \<open>filepath.Ext\<close>, from the last byte backwards.\<close>

fun extLoop :: "string \<Rightarrow> string \<Rightarrow> string" where
  "extLoop [] acc = []"
| "extLoop (c # cs) acc =
     (if c = Separator then []
      else if c = CHR ''.'' then c # acc
      else extLoop cs (c # acc))"

definition filepath_Ext :: "string \<Rightarrow> string" where
  "filepath_Ext path = extLoop (rev path) []"

text \<open>\<open>filepath.Dir\<close>: everything up to and including the last separator, cleaned.\<close>

definition filepath_Dir :: "string \<Rightarrow> string" where
  "filepath_Dir path =
     filepath_Clean (rev (dropWhile (\<lambda>c. c \<noteq> Separator) (rev path)))"

text \<open>
  \<open>filepath.Base\<close>: trailing separators are stripped, then the last element is taken;
  the empty path gives \<open>.\<close> and a path of separators only gives the separator.
\<close>

definition filepath_Base :: "string \<Rightarrow> string" where
  "filepath_Base path =
     (if path = [] then ''.''
      else
        (let p = rev (dropWhile (\<lambda>c. c = Separator) (rev path));
             e = rev (takeWhile (\<lambda>c. c \<noteq> Separator) (rev p))
         in if e = [] then [Separator] else e))"

fun filepath_Join :: "string list \<Rightarrow> string" where
  "filepath_Join [] = []"
| "filepath_Join (e # es) =
     (if e \<noteq> [] then filepath_Clean (strings_Join (e # es) [Separator])
      else filepath_Join es)"

subsection \<open>Package fmt: the verb \<open>%x\<close> on a byte slice\<close>

definition ldigits :: string where
  "ldigits = ''0123456789abcdef''"

definition hexDigit :: "nat \<Rightarrow> char" where
  "hexDigit n = ldigits ! (n mod 16)"

definition hexByte :: "byte \<Rightarrow> string" where
  "hexByte b = [hexDigit (unat b div 16), hexDigit (unat b mod 16)]"

definition fmt_Sprintf_x :: "byte list \<Rightarrow> string" where
  "fmt_Sprintf_x bs = concat (map hexByte bs)"

section \<open>The data model of package gcsurl\<close>

record ServiceAccount =
  ClientEmail :: string
  PrivateKey :: string

record DocumentUpload =
  UploadURL :: string
  ExpiresAt :: int
  GeneratedKey :: string
  OriginalName :: string

record UploadRestrictions =
  AllowMultiple :: bool
  AllowedExtensions :: "string list"
  MaxFileSizeMB :: int64
  MaxFileSizeBytes :: int64

text \<open>
  The field \<open>UploadRestrictions\<close> of \<open>Config\<close> is named
  \<open>ConfigUploadRestrictions\<close> here, apart from the record of that name; a
  \<open>nil\<close> pointer is \<open>None\<close>.
\<close>

record Config =
  ProjectID :: string
  BucketName :: string
  ServiceAccountKeyPath :: string
  DefaultExpiryMinutes :: int64
  ConfigUploadRestrictions :: "UploadRestrictions option"

record URLGenerator =
  serviceAccountKeyPath :: string
  svcAccount :: "ServiceAccount option"
  serviceAccountJSON :: string
  projectID :: string
  bucketName :: string
  defaultExpiry :: int64
  uploadRestrictions :: UploadRestrictions

text \<open>
  Every place where the package returns an error is a constructor; the strings that the
  program formats into the message are its arguments.
\<close>

datatype error =
    BucketNameEmpty
  | BucketEnvRequired
  | BucketNameRequired
  | ParseServiceAccountEnvFailed
  | ReadServiceAccountFileFailed string
  | ParseServiceAccountFileFailed string
  | ServiceAccountNotLoaded
  | RandReadFailed
  | GenerateUUIDFailed error
  | GenerateUniqueObjectNameFailed error
  | ExtensionNotAllowed string "string list"
  | SignedUploadURLFailed
  | ValidatedUploadURLFailed
  | SignedDownloadURLFailed

text \<open>The error kinds of the specification, by the condition that raises each error.\<close>

datatype error_kind =
    ConfigurationError | ValidationError | CredentialMissingError | SigningError
  | DerivationError

fun kind_of :: "error \<Rightarrow> error_kind" where
  "kind_of BucketNameEmpty = ConfigurationError"
| "kind_of BucketEnvRequired = ConfigurationError"
| "kind_of BucketNameRequired = ConfigurationError"
| "kind_of ParseServiceAccountEnvFailed = ConfigurationError"
| "kind_of (ReadServiceAccountFileFailed p) = ConfigurationError"
| "kind_of (ParseServiceAccountFileFailed p) = ConfigurationError"
| "kind_of ServiceAccountNotLoaded = CredentialMissingError"
| "kind_of RandReadFailed = DerivationError"
| "kind_of (GenerateUUIDFailed e) = DerivationError"
| "kind_of (GenerateUniqueObjectNameFailed e) = DerivationError"
| "kind_of (ExtensionNotAllowed ext allowed) = ValidationError"
| "kind_of SignedUploadURLFailed = SigningError"
| "kind_of ValidatedUploadURLFailed = SigningError"
| "kind_of SignedDownloadURLFailed = SigningError"

section \<open>What the package reads from and calls in its surroundings\<close>

text \<open>
  The options handed to \<open>storage.SignedURL\<close>. A header \<open>Content-Length:n\<close> is held as
  the pair of its name and the number.
\<close>

record SignedURLOptions =
  so_Method :: string
  so_Expires :: int
  so_ContentType :: string
  so_Headers :: "(string \<times> int) list"
  so_GoogleAccessID :: string
  so_PrivateKey :: string

text \<open>
  The process environment, the file system (\<open>os.ReadFile\<close>, \<open>None\<close> when the read
  fails), \<open>json.Unmarshal\<close> into a \<open>ServiceAccount\<close> (\<open>None\<close> when it fails), the
  random source of \<open>crypto/rand\<close> (it fails, or it delivers bytes), the clock, the
  signing primitive of the storage client (\<open>None\<close> when it fails), and the
  Unicode-aware functions of the Go library.
\<close>

record world =
  environ :: "string \<Rightarrow> string option"
  files :: "string \<Rightarrow> string option"
  json_Unmarshal :: "string \<Rightarrow> ServiceAccount option"
  rand_fails :: bool
  rand_bytes :: "nat \<Rightarrow> byte"
  time_Now :: int
  storage_SignedURL :: "string \<Rightarrow> string \<Rightarrow> SignedURLOptions \<Rightarrow> string option"
  go_unicode :: unicode

definition os_Getenv :: "world \<Rightarrow> string \<Rightarrow> string" where
  "os_Getenv w k = (case environ w k of None \<Rightarrow> [] | Some v \<Rightarrow> v)"

definition rand_Read :: "world \<Rightarrow> nat \<Rightarrow> byte list option" where
  "rand_Read w n = (if rand_fails w then None else Some (map (rand_bytes w) [0..<n]))"

definition time_Minute :: int64 where
  "time_Minute = 60000000000"

text \<open>
  An operation that may call the signing primitive returns the calls it made, in order,
  beside its result.
\<close>

type_synonym sign_call = "string \<times> string \<times> SignedURLOptions"

section \<open>Construction\<close>

definition NewURLGeneratorWithRestrictions ::
  "world \<Rightarrow> UploadRestrictions option \<Rightarrow> error + URLGenerator" where
  "NewURLGeneratorWithRestrictions w restrictions =
     (let bucketName = os_Getenv w ''GCS_BUCKET_NAME'' in
      if bucketName = [] then Inl BucketEnvRequired
      else
        let projectID = os_Getenv w ''GCP_PROJECT_ID'';
            expiryStr = os_Getenv w ''GCS_DEFAULT_EXPIRY_MINUTES'';
            defaultExpiry =
              (if expiryStr \<noteq> [] then
                 (case strconv_Atoi expiryStr of
                    Some minutes \<Rightarrow>
                      if 0 <s minutes then minutes * time_Minute else 15 * time_Minute
                  | None \<Rightarrow> 15 * time_Minute)
               else 15 * time_Minute);
            uploadRestrictions =
              (case restrictions of
                 None \<Rightarrow> \<lparr>AllowMultiple = True, AllowedExtensions = [],
                           MaxFileSizeMB = 0, MaxFileSizeBytes = 0\<rparr>
               | Some r \<Rightarrow> r);
            env = os_Getenv w ''GCS_SERVICE_ACCOUNT_JSON'';
            credPath = os_Getenv w ''GOOGLE_APPLICATION_CREDENTIALS''
        in
          if env \<noteq> [] then
            (case json_Unmarshal w env of
               None \<Rightarrow> Inl ParseServiceAccountEnvFailed
             | Some sa \<Rightarrow>
                 Inr \<lparr>serviceAccountKeyPath = [], svcAccount = Some sa,
                      serviceAccountJSON = env, projectID = projectID,
                      bucketName = bucketName, defaultExpiry = defaultExpiry,
                      uploadRestrictions = uploadRestrictions\<rparr>)
          else if credPath \<noteq> [] then
            (case files w credPath of
               None \<Rightarrow> Inl (ReadServiceAccountFileFailed credPath)
             | Some data \<Rightarrow>
                 (case json_Unmarshal w data of
                    None \<Rightarrow> Inl (ParseServiceAccountFileFailed credPath)
                  | Some sa \<Rightarrow>
                      Inr \<lparr>serviceAccountKeyPath = credPath, svcAccount = Some sa,
                           serviceAccountJSON = data, projectID = projectID,
                           bucketName = bucketName, defaultExpiry = defaultExpiry,
                           uploadRestrictions = uploadRestrictions\<rparr>))
          else
            Inr \<lparr>serviceAccountKeyPath = [], svcAccount = None,
                 serviceAccountJSON = [], projectID = projectID,
                 bucketName = bucketName, defaultExpiry = defaultExpiry,
                 uploadRestrictions = uploadRestrictions\<rparr>)"

definition NewURLGeneratorWithConfig :: "world \<Rightarrow> Config \<Rightarrow> error + URLGenerator" where
  "NewURLGeneratorWithConfig w config =
     (let bucketName =
            (if BucketName config = [] then os_Getenv w ''GCS_BUCKET_NAME''
             else BucketName config)
      in
      if bucketName = [] then Inl BucketNameRequired
      else
        let expiryStr = os_Getenv w ''GCS_DEFAULT_EXPIRY_MINUTES'';
            defaultExpiry =
              (if 0 <s DefaultExpiryMinutes config then
                 DefaultExpiryMinutes config * time_Minute
               else if expiryStr \<noteq> [] then
                 (case strconv_Atoi expiryStr of
                    Some minutes \<Rightarrow>
                      if 0 <s minutes then minutes * time_Minute else 15 * time_Minute
                  | None \<Rightarrow> 15 * time_Minute)
               else 15 * time_Minute);
            uploadRestrictions =
              (case ConfigUploadRestrictions config of
                 None \<Rightarrow> \<lparr>AllowMultiple = True, AllowedExtensions = [],
                           MaxFileSizeMB = 0, MaxFileSizeBytes = 0\<rparr>
               | Some r \<Rightarrow> r);
            env = os_Getenv w ''GCS_SERVICE_ACCOUNT_JSON''
        in
          if env \<noteq> [] then
            (case json_Unmarshal w env of
               None \<Rightarrow> Inl ParseServiceAccountEnvFailed
             | Some sa \<Rightarrow>
                 Inr \<lparr>serviceAccountKeyPath = ServiceAccountKeyPath config,
                      svcAccount = Some sa, serviceAccountJSON = env,
                      projectID = ProjectID config, bucketName = bucketName,
                      defaultExpiry = defaultExpiry,
                      uploadRestrictions = uploadRestrictions\<rparr>)
          else if ServiceAccountKeyPath config \<noteq> [] then
            (case files w (ServiceAccountKeyPath config) of
               None \<Rightarrow> Inl (ReadServiceAccountFileFailed (ServiceAccountKeyPath config))
             | Some data \<Rightarrow>
                 (case json_Unmarshal w data of
                    None \<Rightarrow> Inl (ParseServiceAccountFileFailed (ServiceAccountKeyPath config))
                  | Some sa \<Rightarrow>
                      Inr \<lparr>serviceAccountKeyPath = ServiceAccountKeyPath config,
                           svcAccount = Some sa, serviceAccountJSON = data,
                           projectID = ProjectID config, bucketName = bucketName,
                           defaultExpiry = defaultExpiry,
                           uploadRestrictions = uploadRestrictions\<rparr>))
          else
            Inr \<lparr>serviceAccountKeyPath = ServiceAccountKeyPath config,
                 svcAccount = None, serviceAccountJSON = [],
                 projectID = ProjectID config, bucketName = bucketName,
                 defaultExpiry = defaultExpiry,
                 uploadRestrictions = uploadRestrictions\<rparr>)"

definition NewURLGenerator :: "world \<Rightarrow> error + URLGenerator" where
  "NewURLGenerator w = NewURLGeneratorWithRestrictions w None"

definition NewURLGeneratorWithBucket :: "world \<Rightarrow> string \<Rightarrow> error + URLGenerator" where
  "NewURLGeneratorWithBucket w bucket =
     (if bucket = [] then Inl BucketNameEmpty
      else NewURLGeneratorWithConfig w
             \<lparr>ProjectID = [], BucketName = bucket, ServiceAccountKeyPath = [],
              DefaultExpiryMinutes = 0, ConfigUploadRestrictions = None\<rparr>)"

definition NewURLGeneratorWithBucketAndRestrictions ::
  "world \<Rightarrow> string \<Rightarrow> UploadRestrictions option \<Rightarrow> error + URLGenerator" where
  "NewURLGeneratorWithBucketAndRestrictions w bucket restrictions =
     (if bucket = [] then Inl BucketNameEmpty
      else NewURLGeneratorWithConfig w
             \<lparr>ProjectID = [], BucketName = bucket, ServiceAccountKeyPath = [],
              DefaultExpiryMinutes = 0, ConfigUploadRestrictions = restrictions\<rparr>)"

definition getServiceAccount :: "URLGenerator \<Rightarrow> error + ServiceAccount" where
  "getServiceAccount u =
     (case svcAccount u of Some sa \<Rightarrow> Inr sa | None \<Rightarrow> Inl ServiceAccountNotLoaded)"

section \<open>Restrictions\<close>

text \<open>The loop over the comma-separated entries of \<open>GCS_ALLOWED_FILE_EXTENSIONS\<close>.\<close>

definition normalizeExtension :: "unicode \<Rightarrow> string \<Rightarrow> string" where
  "normalizeExtension U e =
     (let ext = strings_TrimSpace U e;
          ext' = (if \<not> strings_HasPrefix ext ''.'' then ''.'' @ ext else ext)
      in strings_ToLower U ext')"

definition NewUploadRestrictionsFromEnv :: "world \<Rightarrow> UploadRestrictions option" where
  "NewUploadRestrictionsFromEnv w =
     (let r0 = \<lparr>AllowMultiple = True, AllowedExtensions = [],
                MaxFileSizeMB = 0, MaxFileSizeBytes = 0\<rparr>;
          allowMultiple = os_Getenv w ''GCS_ALLOW_MULTIPLE_UPLOADS'';
          r1 = (if allowMultiple \<noteq> [] then
                  r0\<lparr>AllowMultiple :=
                       (strings_ToLower (go_unicode w) allowMultiple = ''true'')\<rparr>
                else r0);
          extensions = os_Getenv w ''GCS_ALLOWED_FILE_EXTENSIONS'';
          r2 = (if extensions \<noteq> [] then
                  r1\<lparr>AllowedExtensions :=
                        map (normalizeExtension (go_unicode w))
                          (strings_Split extensions (CHR '',''))\<rparr>
                else r1);
          maxSizeStr = os_Getenv w ''GCS_MAX_FILE_SIZE_MB'';
          r3 = (if maxSizeStr \<noteq> [] then
                  (case strconv_ParseInt maxSizeStr of
                     Some maxSizeMB \<Rightarrow>
                       if 0 <s maxSizeMB then
                         r2\<lparr>MaxFileSizeMB := maxSizeMB,
                            MaxFileSizeBytes := maxSizeMB * 1024 * 1024\<rparr>
                       else r2
                   | None \<Rightarrow> r2)
                else r2)
      in if \<not> AllowMultiple r3 \<or> AllowedExtensions r3 \<noteq> [] \<or> 0 <s MaxFileSizeMB r3
         then Some r3 else None)"

text \<open>
  \<open>ValidateUpload\<close> returns an \<open>error\<close>: \<open>None\<close> is Go's \<open>nil\<close>. It
  takes the world for the library functions only.
\<close>

definition ValidateUpload :: "world \<Rightarrow> URLGenerator \<Rightarrow> string \<Rightarrow> error option" where
  "ValidateUpload w u filename =
     (if AllowedExtensions (uploadRestrictions u) \<noteq> [] then
        (let ext = strings_ToLower (go_unicode w) (filepath_Ext filename);
             allowed = list_ex (\<lambda>allowedExt. ext = allowedExt)
                         (AllowedExtensions (uploadRestrictions u))
         in if \<not> allowed
            then Some (ExtensionNotAllowed ext (AllowedExtensions (uploadRestrictions u)))
            else None)
      else None)"

definition hasRestrictions :: "URLGenerator \<Rightarrow> bool" where
  "hasRestrictions u \<longleftrightarrow>
     AllowedExtensions (uploadRestrictions u) \<noteq> [] \<or>
     0 <s MaxFileSizeMB (uploadRestrictions u) \<or>
     \<not> AllowMultiple (uploadRestrictions u)"

section \<open>Content types\<close>

definition contentTypes :: "(string \<times> string) list" where
  "contentTypes =
     [(''.pdf'', ''application/pdf''),
      (''.jpg'', ''image/jpeg''),
      (''.jpeg'', ''image/jpeg''),
      (''.png'', ''image/png''),
      (''.gif'', ''image/gif''),
      (''.webp'', ''image/webp''),
      (''.mp3'', ''audio/mpeg''),
      (''.mp4'', ''video/mp4''),
      (''.avi'', ''video/x-msvideo''),
      (''.txt'', ''text/plain''),
      (''.csv'', ''text/csv''),
      (''.json'', ''application/json''),
      (''.xml'', ''application/xml''),
      (''.zip'', ''application/zip''),
      (''.doc'', ''application/msword''),
      (''.docx'',
       ''application/vnd.openxmlformats-officedocument.wordprocessingml.document''),
      (''.xls'', ''application/vnd.ms-excel''),
      (''.xlsx'', ''application/vnd.openxmlformats-officedocument.spreadsheetml.sheet'')]"

definition getContentTypeFromExtension :: "string \<Rightarrow> string" where
  "getContentTypeFromExtension ext =
     (case map_of contentTypes ext of
        Some contentType \<Rightarrow> contentType
      | None \<Rightarrow> ''application/octet-stream'')"

section \<open>Unique object names\<close>

definition generateShortUUID :: "world \<Rightarrow> error + string" where
  "generateShortUUID w =
     (case rand_Read w 4 of
        None \<Rightarrow> Inl RandReadFailed
      | Some bytes \<Rightarrow> Inr (fmt_Sprintf_x bytes))"

definition generateUniqueObjectName :: "world \<Rightarrow> string \<Rightarrow> error + string" where
  "generateUniqueObjectName w originalPath =
     (case generateShortUUID w of
        Inl e \<Rightarrow> Inl (GenerateUUIDFailed e)
      | Inr uuid \<Rightarrow>
          (let dir = filepath_Dir originalPath;
               filename = filepath_Base originalPath;
               ext = filepath_Ext filename;
               nameWithoutExt = strings_TrimSuffix filename ext;
               uniqueFilename = uuid @ ''_'' @ nameWithoutExt @ ext
           in if dir = ''.'' then Inr uniqueFilename
              else Inr (filepath_Join [dir, uniqueFilename])))"

section \<open>Signed URLs\<close>

definition GenerateSignedUploadURLWithExpiry ::
  "world \<Rightarrow> URLGenerator \<Rightarrow> string \<Rightarrow> string \<Rightarrow> int64 \<Rightarrow>
     sign_call list \<times> (error + DocumentUpload)" where
  "GenerateSignedUploadURLWithExpiry w u bucket objectName expiry =
     (case getServiceAccount u of
        Inl e \<Rightarrow> ([], Inl e)
      | Inr sa \<Rightarrow>
          (let expires = time_Now w + sint expiry;
               opts = \<lparr>so_Method = ''PUT'', so_Expires = expires,
                       so_ContentType = ''application/octet-stream'', so_Headers = [],
                       so_GoogleAccessID = ClientEmail sa,
                       so_PrivateKey = PrivateKey sa\<rparr>
           in case storage_SignedURL w bucket objectName opts of
                None \<Rightarrow> ([(bucket, objectName, opts)], Inl SignedUploadURLFailed)
              | Some signedURL \<Rightarrow>
                  ([(bucket, objectName, opts)],
                   Inr \<lparr>UploadURL = signedURL, ExpiresAt = expires,
                        GeneratedKey = objectName, OriginalName = objectName\<rparr>)))"

definition generateUploadURLWithRestrictions ::
  "world \<Rightarrow> URLGenerator \<Rightarrow> string \<Rightarrow> string \<Rightarrow> int64 \<Rightarrow>
     sign_call list \<times> (error + DocumentUpload)" where
  "generateUploadURLWithRestrictions w u bucket objectName expiry =
     (case getServiceAccount u of
        Inl e \<Rightarrow> ([], Inl e)
      | Inr sa \<Rightarrow>
          (let expires = time_Now w + sint expiry;
               headers =
                 (if 0 <s MaxFileSizeBytes (uploadRestrictions u)
                  then [(''Content-Length'', sint (MaxFileSizeBytes (uploadRestrictions u)))]
                  else []);
               ext = strings_ToLower (go_unicode w) (filepath_Ext objectName);
               contentType =
                 (if ext \<noteq> [] then getContentTypeFromExtension ext
                  else ''application/octet-stream'');
               opts = \<lparr>so_Method = ''PUT'', so_Expires = expires,
                       so_ContentType = contentType, so_Headers = headers,
                       so_GoogleAccessID = ClientEmail sa,
                       so_PrivateKey = PrivateKey sa\<rparr>
           in case storage_SignedURL w bucket objectName opts of
                None \<Rightarrow> ([(bucket, objectName, opts)], Inl ValidatedUploadURLFailed)
              | Some signedURL \<Rightarrow>
                  ([(bucket, objectName, opts)],
                   Inr \<lparr>UploadURL = signedURL, ExpiresAt = expires,
                        GeneratedKey = [], OriginalName = []\<rparr>)))"

definition GenerateSignedDownloadURLWithExpiry ::
  "world \<Rightarrow> URLGenerator \<Rightarrow> string \<Rightarrow> string \<Rightarrow> int64 \<Rightarrow>
     sign_call list \<times> (error + string)" where
  "GenerateSignedDownloadURLWithExpiry w u bucket objectName expiry =
     (case getServiceAccount u of
        Inl e \<Rightarrow> ([], Inl e)
      | Inr sa \<Rightarrow>
          (let expires = time_Now w + sint expiry;
               opts = \<lparr>so_Method = ''GET'', so_Expires = expires,
                       so_ContentType = [], so_Headers = [],
                       so_GoogleAccessID = ClientEmail sa,
                       so_PrivateKey = PrivateKey sa\<rparr>
           in case storage_SignedURL w bucket objectName opts of
                None \<Rightarrow> ([(bucket, objectName, opts)], Inl SignedDownloadURLFailed)
              | Some signedURL \<Rightarrow> ([(bucket, objectName, opts)], Inr signedURL)))"

definition GenerateSignedDownloadURL ::
  "world \<Rightarrow> URLGenerator \<Rightarrow> string \<Rightarrow> sign_call list \<times> (error + string)" where
  "GenerateSignedDownloadURL w u objectName =
     GenerateSignedDownloadURLWithExpiry w u (bucketName u) objectName (defaultExpiry u)"

definition GenerateSignedDownloadURLWithBucket ::
  "world \<Rightarrow> URLGenerator \<Rightarrow> string \<Rightarrow> string \<Rightarrow>
     sign_call list \<times> (error + string)" where
  "GenerateSignedDownloadURLWithBucket w u bucket objectName =
     GenerateSignedDownloadURLWithExpiry w u bucket objectName (defaultExpiry u)"

text \<open>
  The tail that the three naming operations share: the result of the signing helper,
  with the two names set on success.
\<close>

definition withNames ::
  "string \<Rightarrow> string \<Rightarrow> sign_call list \<times> (error + DocumentUpload) \<Rightarrow>
     sign_call list \<times> (error + DocumentUpload)" where
  "withNames key name r =
     (case snd r of
        Inl e \<Rightarrow> (fst r, Inl e)
      | Inr upload \<Rightarrow> (fst r, Inr (upload\<lparr>GeneratedKey := key, OriginalName := name\<rparr>)))"

definition GenerateSignedUploadURLWithBucket ::
  "world \<Rightarrow> URLGenerator \<Rightarrow> string \<Rightarrow> string \<Rightarrow>
     sign_call list \<times> (error + DocumentUpload)" where
  "GenerateSignedUploadURLWithBucket w u bucket objectName =
     (case generateUniqueObjectName w objectName of
        Inl e \<Rightarrow> ([], Inl (GenerateUniqueObjectNameFailed e))
      | Inr uniqueObjectName \<Rightarrow>
          if hasRestrictions u then
            (case ValidateUpload w u objectName of
               Some e \<Rightarrow> ([], Inl e)
             | None \<Rightarrow>
                 withNames uniqueObjectName objectName
                   (generateUploadURLWithRestrictions w u bucket uniqueObjectName
                      (defaultExpiry u)))
          else
            withNames uniqueObjectName objectName
              (GenerateSignedUploadURLWithExpiry w u bucket uniqueObjectName
                 (defaultExpiry u)))"

definition GenerateSignedUploadURL ::
  "world \<Rightarrow> URLGenerator \<Rightarrow> string \<Rightarrow> sign_call list \<times> (error + DocumentUpload)" where
  "GenerateSignedUploadURL w u objectName =
     (case generateUniqueObjectName w objectName of
        Inl e \<Rightarrow> ([], Inl (GenerateUniqueObjectNameFailed e))
      | Inr uniqueObjectName \<Rightarrow>
          if hasRestrictions u then
            (case ValidateUpload w u objectName of
               Some e \<Rightarrow> ([], Inl e)
             | None \<Rightarrow>
                 withNames uniqueObjectName objectName
                   (generateUploadURLWithRestrictions w u (bucketName u) uniqueObjectName
                      (defaultExpiry u)))
          else
            withNames uniqueObjectName objectName
              (GenerateSignedUploadURLWithExpiry w u (bucketName u) uniqueObjectName
                 (defaultExpiry u)))"

definition GenerateSignedUploadURLWithOriginalName ::
  "world \<Rightarrow> URLGenerator \<Rightarrow> string \<Rightarrow> sign_call list \<times> (error + DocumentUpload)" where
  "GenerateSignedUploadURLWithOriginalName w u objectName =
     (if hasRestrictions u then
        (case ValidateUpload w u objectName of
           Some e \<Rightarrow> ([], Inl e)
         | None \<Rightarrow>
             withNames objectName objectName
               (generateUploadURLWithRestrictions w u (bucketName u) objectName
                  (defaultExpiry u)))
      else
        GenerateSignedUploadURLWithExpiry w u (bucketName u) objectName (defaultExpiry u))"

section \<open>Notions used to state the properties\<close>

text \<open>The last element of a path: the bytes after its final separator.\<close>

definition lastSegment :: "string \<Rightarrow> string" where
  "lastSegment f = rev (takeWhile (\<lambda>c. c \<noteq> Separator) (rev f))"

text \<open>
  The directory prefix of a path: the bytes before its final separator (nothing when
  the path has no separator).
\<close>

definition dirPrefix :: "string \<Rightarrow> string" where
  "dirPrefix p = rev (tl (dropWhile (\<lambda>c. c \<noteq> Separator) (rev p)))"

text \<open>
  A path element that \<open>filepath.Clean\<close> keeps as it is: not empty, not \<open>.\<close> and
  not \<open>..\<close>. A directory prefix is in clean form when it is empty (the path is a
  leaf under the root), or when all its elements, after one optional leading separator,
  are such names.
\<close>

definition isName :: "string \<Rightarrow> bool" where
  "isName e \<longleftrightarrow> e \<noteq> [] \<and> e \<noteq> ''.'' \<and> e \<noteq> ''..''"

definition cleanPrefix :: "string \<Rightarrow> bool" where
  "cleanPrefix d \<longleftrightarrow>
     d = [] \<or>
     (if hd d = Separator
      then tl (strings_Split d Separator) \<noteq> [] \<and> list_all isName (tl (strings_Split d Separator))
      else list_all isName (strings_Split d Separator))"

text \<open>
  The outcome of the chain of credential sources for a construction that yields \<open>x\<close>
  when the chain succeeds: the JSON blob of the environment, then the file at
  \<open>credPath\<close>, then no signing identity.
\<close>

definition afterCredentials :: "world \<Rightarrow> string \<Rightarrow> 'a \<Rightarrow> error + 'a" where
  "afterCredentials w credPath x =
     (if os_Getenv w ''GCS_SERVICE_ACCOUNT_JSON'' \<noteq> [] then
        (case json_Unmarshal w (os_Getenv w ''GCS_SERVICE_ACCOUNT_JSON'') of
           None \<Rightarrow> Inl ParseServiceAccountEnvFailed
         | Some sa \<Rightarrow> Inr x)
      else if credPath \<noteq> [] then
        (case files w credPath of
           None \<Rightarrow> Inl (ReadServiceAccountFileFailed credPath)
         | Some data \<Rightarrow>
             (case json_Unmarshal w data of
                None \<Rightarrow> Inl (ParseServiceAccountFileFailed credPath)
              | Some sa \<Rightarrow> Inr x))
      else Inr x)"

text \<open>The default expiry that both constructors read from the environment.\<close>

definition envExpiry :: "world \<Rightarrow> int64" where
  "envExpiry w =
     (let expiryStr = os_Getenv w ''GCS_DEFAULT_EXPIRY_MINUTES'' in
      if expiryStr \<noteq> [] then
        (case strconv_Atoi expiryStr of
           Some minutes \<Rightarrow> if 0 <s minutes then minutes * time_Minute else 15 * time_Minute
         | None \<Rightarrow> 15 * time_Minute)
      else 15 * time_Minute)"

definition generatedUUID :: "world \<Rightarrow> string" where
  "generatedUUID w = fmt_Sprintf_x (map (rand_bytes w) [0..<4])"

section \<open>Example surroundings and generators\<close>

definition exampleAccount :: ServiceAccount where
  "exampleAccount = \<lparr>ClientEmail = ''svc@example.iam'', PrivateKey = ''KEY''\<rparr>"

definition pdfOnly :: UploadRestrictions where
  "pdfOnly = \<lparr>AllowMultiple = True, AllowedExtensions = [''.pdf''],
              MaxFileSizeMB = 0, MaxFileSizeBytes = 0\<rparr>"

definition pdfGenerator :: URLGenerator where
  "pdfGenerator = \<lparr>serviceAccountKeyPath = [], svcAccount = Some exampleAccount,
      serviceAccountJSON = [], projectID = [], bucketName = ''docs'',
      defaultExpiry = 15 * time_Minute, uploadRestrictions = pdfOnly\<rparr>"



text \<open>
  A world with an empty environment and no files, whose random source delivers the
  bytes \<open>a1 b2 0c d4\<close> and whose signing primitive always succeeds.
\<close>

text \<open>
  Library functions that keep every byte outside ASCII as it is: they agree with the Go
  library on ASCII strings.
\<close>

definition asciiUnicode :: unicode where
  "asciiUnicode =
     \<lparr>Map_ToLower = map toLower,
      TrimFunc_IsSpace = (\<lambda>s. rev (dropWhile isSpace (rev (dropWhile isSpace s)))),
      TrimRightFunc_IsSpace = (\<lambda>s. rev (dropWhile isSpace (rev s)))\<rparr>"

definition exampleWorld :: world where
  "exampleWorld = \<lparr>environ = Map.empty, files = Map.empty,
      json_Unmarshal = (\<lambda>data. None), rand_fails = False,
      rand_bytes = (\<lambda>i. [0xa1, 0xb2, 0x0c, 0xd4] ! i), time_Now = 1000,
      storage_SignedURL =
        (\<lambda>bucket key opts. Some (''https://storage/'' @ bucket @ ''/'' @ key)),
      go_unicode = asciiUnicode\<rparr>"

definition defaultsWorld :: world where
  "defaultsWorld =
     exampleWorld\<lparr>environ := [''GCS_ALLOW_MULTIPLE_UPLOADS'' \<mapsto> ''true'']\<rparr>"

text \<open>
  A world where the bucket and the credentials file are given by the environment, and
  the file holds a service account.
\<close>

definition credentialsWorld :: world where
  "credentialsWorld =
     exampleWorld\<lparr>environ := [''GCS_BUCKET_NAME'' \<mapsto> ''envbucket'',
                              ''GOOGLE_APPLICATION_CREDENTIALS'' \<mapsto> ''/key.json''],
                   files := [''/key.json'' \<mapsto> ''{}''],
                   json_Unmarshal := [''{}'' \<mapsto> exampleAccount]\<rparr>"

definition expiryWorld :: world where
  "expiryWorld =
     exampleWorld\<lparr>environ := [''GCS_BUCKET_NAME'' \<mapsto> ''envbucket'',
                              ''GCS_DEFAULT_EXPIRY_MINUTES'' \<mapsto> ''30'']\<rparr>"

definition bucketWorld :: world where
  "bucketWorld = exampleWorld\<lparr>environ := [''GCS_BUCKET_NAME'' \<mapsto> ''envbucket'']\<rparr>"

definition minusFiveWorld :: world where
  "minusFiveWorld =
     exampleWorld\<lparr>environ := [''GCS_BUCKET_NAME'' \<mapsto> ''envbucket'',
                              ''GCS_DEFAULT_EXPIRY_MINUTES'' \<mapsto> ''-5'']\<rparr>"

definition abcWorld :: world where
  "abcWorld =
     exampleWorld\<lparr>environ := [''GCS_BUCKET_NAME'' \<mapsto> ''envbucket'',
                              ''GCS_DEFAULT_EXPIRY_MINUTES'' \<mapsto> ''abc'']\<rparr>"

definition exampleConfig :: Config where
  "exampleConfig = \<lparr>ProjectID = [], BucketName = ''mine'', ServiceAccountKeyPath = [],
                    DefaultExpiryMinutes = 0, ConfigUploadRestrictions = None\<rparr>"

definition expiryConfig :: Config where
  "expiryConfig = exampleConfig\<lparr>DefaultExpiryMinutes := 45\<rparr>"

section \<open>The content-type table\<close>

lemma contentTypes_distinct: "distinct (map fst contentTypes)"
  by (simp add: contentTypes_def)

text \<open>
  Claim C9. The content-type resolver is a total lookup in a fixed table: for every
  pair of the table it returns the MIME type of the key, and for every extension that
  is not a key of the table, the empty extension among them, it returns
  \<open>application/octet-stream\<close>.
\<close>

theorem content_type_table:
  "(\<forall>k v. (k, v) \<in> set contentTypes \<longrightarrow> getContentTypeFromExtension k = v) \<and>
   (\<forall>ext. ext \<notin> fst ` set contentTypes \<longrightarrow>
      getContentTypeFromExtension ext = ''application/octet-stream'') \<and>
   getContentTypeFromExtension [] = ''application/octet-stream''"
proof (intro conjI allI impI)
  fix k v assume "(k, v) \<in> set contentTypes"
  then have "map_of contentTypes k = Some v"
    using contentTypes_distinct by simp
  then show "getContentTypeFromExtension k = v"
    by (simp add: getContentTypeFromExtension_def)
next
  fix ext assume "ext \<notin> fst ` set contentTypes"
  then have "map_of contentTypes ext = None"
    by (simp add: map_of_eq_None_iff)
  then show "getContentTypeFromExtension ext = ''application/octet-stream''"
    by (simp add: getContentTypeFromExtension_def)
next
  show "getContentTypeFromExtension [] = ''application/octet-stream''"
    by (simp add: getContentTypeFromExtension_def contentTypes_def)
qed

text \<open>
  The table at \<open>.docx\<close>, which is a key, and at \<open>.webm\<close>, which is not.
\<close>

theorem content_type_table_witness:
  "(''.docx'', ''application/vnd.openxmlformats-officedocument.wordprocessingml.document'')
     \<in> set contentTypes \<and>
   getContentTypeFromExtension ''.docx'' =
     ''application/vnd.openxmlformats-officedocument.wordprocessingml.document'' \<and>
   ''.webm'' \<notin> fst ` set contentTypes \<and>
   getContentTypeFromExtension ''.webm'' = ''application/octet-stream''"
proof -
  have a: "(''.docx'', ''application/vnd.openxmlformats-officedocument.wordprocessingml.document'')
     \<in> set contentTypes"
    by (simp add: contentTypes_def)
  have b: "''.webm'' \<notin> fst ` set contentTypes"
    by (simp add: contentTypes_def)
  show ?thesis
    using content_type_table a b by blast
qed

section \<open>Extensions, base names and the identifier\<close>

lemma extLoop_suffix: "\<exists>ys. rev xs @ acc = ys @ extLoop xs acc"
proof (induction xs arbitrary: acc)
  case Nil
  show ?case by simp
next
  case (Cons c cs)
  show ?case
  proof (cases "c = Separator \<or> c = CHR ''.''")
    case True
    then show ?thesis by auto
  next
    case False
    with Cons.IH [of "c # acc"] show ?thesis by simp
  qed
qed

lemma Ext_suffix: "\<exists>ys. path = ys @ filepath_Ext path"
  using extLoop_suffix [of "rev path" "[]"] by (simp add: filepath_Ext_def)

lemma TrimSuffix_append: "strings_TrimSuffix (ys @ e) e = ys"
proof -
  have "strings_HasSuffix (ys @ e) e"
    by (simp add: strings_HasSuffix_def)
  then show ?thesis
    by (simp add: strings_TrimSuffix_def)
qed

lemma TrimSuffix_Ext: "strings_TrimSuffix f (filepath_Ext f) @ filepath_Ext f = f"
proof -
  obtain ys where ys: "f = ys @ filepath_Ext f"
    using Ext_suffix by blast
  have "strings_TrimSuffix (ys @ filepath_Ext f) (filepath_Ext f) = ys"
    by (rule TrimSuffix_append)
  with ys show ?thesis by metis
qed

lemma hexDigit_in: "hexDigit n \<in> set ldigits"
  unfolding hexDigit_def by (rule nth_mem) (simp add: ldigits_def)

lemma hexByte_props: "length (hexByte b) = 2 \<and> set (hexByte b) \<subseteq> set ldigits"
  using hexDigit_in by (simp add: hexByte_def)

lemma Sprintf_x_length: "length (fmt_Sprintf_x bs) = 2 * length bs"
  by (induction bs) (simp_all add: fmt_Sprintf_x_def hexByte_def)

lemma Sprintf_x_set: "set (fmt_Sprintf_x bs) \<subseteq> set ldigits"
  using hexByte_props by (auto simp: fmt_Sprintf_x_def)

lemma takeWhile_no_sep:
  "Separator \<notin> set xs \<Longrightarrow> takeWhile (\<lambda>c. c \<noteq> Separator) xs = xs"
  by (induction xs) auto

lemma dropWhile_no_sep:
  "Separator \<notin> set xs \<Longrightarrow> dropWhile (\<lambda>c. c \<noteq> Separator) xs = []"
  by (induction xs) auto

lemma dropWhile_sep_no_sep:
  "Separator \<notin> set xs \<Longrightarrow> dropWhile (\<lambda>c. c = Separator) xs = xs"
  by (cases xs) auto

lemma Dir_no_sep: "Separator \<notin> set p \<Longrightarrow> filepath_Dir p = ''.''"
  by (simp add: filepath_Dir_def filepath_Clean_def dropWhile_no_sep)

lemma Base_no_sep: "Separator \<notin> set p \<Longrightarrow> p \<noteq> [] \<Longrightarrow> filepath_Base p = p"
  by (simp add: filepath_Base_def takeWhile_no_sep dropWhile_sep_no_sep)

lemma uniqueFilename_eq:
  "generateUniqueObjectName w p =
     (case generateShortUUID w of
        Inl e \<Rightarrow> Inl (GenerateUUIDFailed e)
      | Inr uuid \<Rightarrow>
          if filepath_Dir p = ''.'' then Inr (uuid @ ''_'' @ filepath_Base p)
          else Inr (filepath_Join [filepath_Dir p, uuid @ ''_'' @ filepath_Base p]))"
  by (simp add: generateUniqueObjectName_def Let_def TrimSuffix_Ext split: sum.splits)

lemma generateShortUUID_ok:
  "\<not> rand_fails w \<Longrightarrow>
     generateShortUUID w = Inr (fmt_Sprintf_x (map (rand_bytes w) [0..<4]))"
  by (simp add: generateShortUUID_def rand_Read_def)

lemma ldigits_no_sep: "Separator \<notin> set ldigits"
  by (simp add: ldigits_def)

section \<open>Validation of file names\<close>

lemma Ext_a_pdf: "filepath_Ext ''a.pdf'' = ''.pdf''" by (simp add: filepath_Ext_def)
lemma Ext_A_PDF: "filepath_Ext ''A.PDF'' = ''.PDF''" by (simp add: filepath_Ext_def)
lemma Ext_a_jpg: "filepath_Ext ''a.jpg'' = ''.jpg''" by (simp add: filepath_Ext_def)



lemma lower_PDF: "strings_ToLower U ''.PDF'' = ''.pdf''"
  by (simp add: strings_ToLower_def isASCII_def toLower_def isUpper_def char_of_eq_iff)
lemma lower_pdf: "strings_ToLower U ''.pdf'' = ''.pdf''"
  by (simp add: strings_ToLower_def isASCII_def toLower_def isUpper_def)
lemma lower_jpg: "strings_ToLower U ''.jpg'' = ''.jpg''"
  by (simp add: strings_ToLower_def isASCII_def toLower_def isUpper_def)

lemma generateUniqueObjectName_cases:
  "(rand_fails w \<and> generateUniqueObjectName w p = Inl (GenerateUUIDFailed RandReadFailed)) \<or>
   (\<not> rand_fails w \<and> (\<exists>k. generateUniqueObjectName w p = Inr k))"
  by (simp add: uniqueFilename_eq generateShortUUID_def rand_Read_def)

text \<open>
  Claim C7. For a generator whose allow-list is \<open>[".pdf"]\<close>, validation accepts
  \<open>a.pdf\<close> and \<open>A.PDF\<close> and rejects \<open>a.jpg\<close> with a validation error. On
  \<open>a.jpg\<close> the upload operation makes no call of the signing primitive and returns
  an error in every world, and that error is the validation error whenever the random
  source delivers. A generator with an empty allow-list accepts every file name.
\<close>

theorem restriction_gating:
  assumes "AllowedExtensions (uploadRestrictions u) = [''.pdf'']"
  shows "ValidateUpload w u ''a.pdf'' = None \<and>
         ValidateUpload w u ''A.PDF'' = None \<and>
         ValidateUpload w u ''a.jpg'' = Some (ExtensionNotAllowed ''.jpg'' [''.pdf'']) \<and>
         kind_of (ExtensionNotAllowed ''.jpg'' [''.pdf'']) = ValidationError \<and>
         fst (GenerateSignedUploadURL w u ''a.jpg'') = [] \<and>
         (\<exists>e. snd (GenerateSignedUploadURL w u ''a.jpg'') = Inl e) \<and>
         (\<not> rand_fails w \<longrightarrow>
            GenerateSignedUploadURL w u ''a.jpg'' =
              ([], Inl (ExtensionNotAllowed ''.jpg'' [''.pdf'']))) \<and>
         (AllowedExtensions (uploadRestrictions u') = [] \<longrightarrow>
            ValidateUpload w u' filename = None)"
proof -
  have v1: "ValidateUpload w u ''a.pdf'' = None"
    using assms by (simp add: ValidateUpload_def Ext_a_pdf lower_pdf)
  have v2: "ValidateUpload w u ''A.PDF'' = None"
    using assms by (simp add: ValidateUpload_def Ext_A_PDF lower_PDF)
  have v3: "ValidateUpload w u ''a.jpg'' = Some (ExtensionNotAllowed ''.jpg'' [''.pdf''])"
    using assms by (simp add: ValidateUpload_def Ext_a_jpg lower_jpg)
  have h: "hasRestrictions u"
    using assms by (simp add: hasRestrictions_def)
  have g: "GenerateSignedUploadURL w u ''a.jpg'' =
             (case generateUniqueObjectName w ''a.jpg'' of
                Inl e \<Rightarrow> ([], Inl (GenerateUniqueObjectNameFailed e))
              | Inr k \<Rightarrow> ([], Inl (ExtensionNotAllowed ''.jpg'' [''.pdf''])))"
    by (simp add: GenerateSignedUploadURL_def h v3 split: sum.splits)
  have g1: "fst (GenerateSignedUploadURL w u ''a.jpg'') = []"
    by (simp add: g split: sum.splits)
  have g2: "\<exists>e. snd (GenerateSignedUploadURL w u ''a.jpg'') = Inl e"
    by (simp add: g split: sum.splits)
  have g3: "\<not> rand_fails w \<longrightarrow>
            GenerateSignedUploadURL w u ''a.jpg'' =
              ([], Inl (ExtensionNotAllowed ''.jpg'' [''.pdf'']))"
    using generateUniqueObjectName_cases [of w "''a.jpg''"] by (auto simp: g)
  have e: "AllowedExtensions (uploadRestrictions u') = [] \<longrightarrow>
            ValidateUpload w u' filename = None"
    by (simp add: ValidateUpload_def)
  show ?thesis
    using v1 v2 v3 g1 g2 g3 e by simp
qed

text \<open>
  The generator \<open>pdfGenerator\<close> in the example world.
\<close>

theorem restriction_gating_witness:
  "AllowedExtensions (uploadRestrictions pdfGenerator) = [''.pdf''] \<and>
   \<not> rand_fails exampleWorld \<and>
   ValidateUpload exampleWorld pdfGenerator ''A.PDF'' = None \<and>
   GenerateSignedUploadURL exampleWorld pdfGenerator ''a.jpg'' =
     ([], Inl (ExtensionNotAllowed ''.jpg'' [''.pdf'']))"
proof -
  have a: "AllowedExtensions (uploadRestrictions pdfGenerator) = [''.pdf'']"
    by (simp add: pdfGenerator_def pdfOnly_def)
  have r: "\<not> rand_fails exampleWorld"
    by (simp add: exampleWorld_def)
  show ?thesis
    using restriction_gating [OF a, of exampleWorld] a r by simp
qed

















section \<open>Restrictions from the environment\<close>

lemma Split_not_Nil: "strings_Split s c \<noteq> []"
  by (cases s) simp_all

lemma ParseInt_Nil: "strconv_ParseInt [] = None"
  by (simp add: strconv_ParseInt_def)

text \<open>
  Claim C2, amended. \<open>NewUploadRestrictionsFromEnv\<close> returns no policy exactly when
  the policy it builds is permissive: \<open>GCS_ALLOW_MULTIPLE_UPLOADS\<close> is unset, empty or
  reads \<open>true\<close> in any case, \<open>GCS_ALLOWED_FILE_EXTENSIONS\<close> is unset or empty, and
  \<open>GCS_MAX_FILE_SIZE_MB\<close> is not a positive 64-bit integer. In particular it
  returns no policy when none of the three variables is set, and a policy it returns is
  never permissive.
\<close>

theorem restrictions_from_env:
  "(NewUploadRestrictionsFromEnv w = None \<longleftrightarrow>
      (os_Getenv w ''GCS_ALLOW_MULTIPLE_UPLOADS'' = [] \<or>
       strings_ToLower (go_unicode w) (os_Getenv w ''GCS_ALLOW_MULTIPLE_UPLOADS'') = ''true'') \<and>
      os_Getenv w ''GCS_ALLOWED_FILE_EXTENSIONS'' = [] \<and>
      (case strconv_ParseInt (os_Getenv w ''GCS_MAX_FILE_SIZE_MB'') of
         None \<Rightarrow> True | Some n \<Rightarrow> \<not> 0 <s n)) \<and>
   (environ w ''GCS_ALLOW_MULTIPLE_UPLOADS'' = None \<and>
    environ w ''GCS_ALLOWED_FILE_EXTENSIONS'' = None \<and>
    environ w ''GCS_MAX_FILE_SIZE_MB'' = None \<longrightarrow>
      NewUploadRestrictionsFromEnv w = None) \<and>
   (\<forall>r. NewUploadRestrictionsFromEnv w = Some r \<longrightarrow>
      \<not> AllowMultiple r \<or> AllowedExtensions r \<noteq> [] \<or> 0 <s MaxFileSizeMB r)"
proof -
  have iff: "NewUploadRestrictionsFromEnv w = None \<longleftrightarrow>
      (os_Getenv w ''GCS_ALLOW_MULTIPLE_UPLOADS'' = [] \<or>
       strings_ToLower (go_unicode w) (os_Getenv w ''GCS_ALLOW_MULTIPLE_UPLOADS'') = ''true'') \<and>
      os_Getenv w ''GCS_ALLOWED_FILE_EXTENSIONS'' = [] \<and>
      (case strconv_ParseInt (os_Getenv w ''GCS_MAX_FILE_SIZE_MB'') of
         None \<Rightarrow> True | Some n \<Rightarrow> \<not> 0 <s n)"
    by (auto simp: NewUploadRestrictionsFromEnv_def Let_def Split_not_Nil ParseInt_Nil
        split: option.splits)
  have unset: "environ w ''GCS_ALLOW_MULTIPLE_UPLOADS'' = None \<and>
    environ w ''GCS_ALLOWED_FILE_EXTENSIONS'' = None \<and>
    environ w ''GCS_MAX_FILE_SIZE_MB'' = None \<longrightarrow>
      NewUploadRestrictionsFromEnv w = None"
    by (simp add: iff os_Getenv_def ParseInt_Nil)
  have some: "\<forall>r. NewUploadRestrictionsFromEnv w = Some r \<longrightarrow>
      \<not> AllowMultiple r \<or> AllowedExtensions r \<noteq> [] \<or> 0 <s MaxFileSizeMB r"
    by (auto simp: NewUploadRestrictionsFromEnv_def Let_def split: option.splits if_splits)
  show ?thesis using iff unset some by blast
qed

text \<open>
  The example world sets none of the three variables.
\<close>

theorem restrictions_from_env_witness:
  "environ exampleWorld ''GCS_ALLOW_MULTIPLE_UPLOADS'' = None \<and>
   environ exampleWorld ''GCS_ALLOWED_FILE_EXTENSIONS'' = None \<and>
   environ exampleWorld ''GCS_MAX_FILE_SIZE_MB'' = None \<and>
   NewUploadRestrictionsFromEnv exampleWorld = None"
proof -
  have e: "environ exampleWorld = Map.empty"
    by (simp add: exampleWorld_def)
  show ?thesis
    using restrictions_from_env [of exampleWorld] by (simp add: e)
qed

text \<open>
  Claim C2 as stated fails when a variable is set to its default value: with
  \<open>GCS_ALLOW_MULTIPLE_UPLOADS=true\<close> and nothing else, no policy is returned.
\<close>

theorem restrictions_from_env_counterexample:
  "environ defaultsWorld ''GCS_ALLOW_MULTIPLE_UPLOADS'' = Some ''true'' \<and>
   NewUploadRestrictionsFromEnv defaultsWorld = None"
  by (simp add: defaultsWorld_def exampleWorld_def NewUploadRestrictionsFromEnv_def
      os_Getenv_def strings_ToLower_def isASCII_def toLower_def isUpper_def ParseInt_Nil)

section \<open>Resolution of expiry and bucket at construction\<close>

lemma Atoi_30: "strconv_Atoi ''30'' = Some 30"
  by (simp add: strconv_Atoi_def strconv_ParseInt_def isDigit_def)

lemma Atoi_minus5: "strconv_Atoi ''-5'' = Some (- 5)"
  by (simp add: strconv_Atoi_def strconv_ParseInt_def isDigit_def)

lemma Atoi_abc: "strconv_Atoi ''abc'' = None"
  by (simp add: strconv_Atoi_def strconv_ParseInt_def isDigit_def)

lemma pos_30: "0 <s (30 :: int64)"
  by (simp add: word_sless_alt)

lemma not_pos_minus5: "\<not> 0 <s (- 5 :: int64)"
  by (simp add: word_sless_alt)

lemma envExpiry_cases:
  "os_Getenv w ''GCS_DEFAULT_EXPIRY_MINUTES'' = [] \<Longrightarrow> envExpiry w = 15 * time_Minute"
  "os_Getenv w ''GCS_DEFAULT_EXPIRY_MINUTES'' = ''30'' \<Longrightarrow> envExpiry w = 30 * time_Minute"
  "os_Getenv w ''GCS_DEFAULT_EXPIRY_MINUTES'' = ''-5'' \<Longrightarrow> envExpiry w = 15 * time_Minute"
  "os_Getenv w ''GCS_DEFAULT_EXPIRY_MINUTES'' = ''abc'' \<Longrightarrow> envExpiry w = 15 * time_Minute"
  by (simp_all add: envExpiry_def Atoi_30 Atoi_minus5 Atoi_abc pos_30 not_pos_minus5)

lemma minutes_exact:
  "sint (15 * time_Minute) = 900000000000 \<and> sint (30 * time_Minute) = 1800000000000"
  by (simp add: time_Minute_def)

text \<open>
  What each constructor returns once the bucket is resolved: the outcome of the chain
  of credential sources, with the resolved bucket and the resolved expiry in the
  generator.
\<close>

lemma WithRestrictions_total:
  assumes "os_Getenv w ''GCS_BUCKET_NAME'' \<noteq> []"
  shows "map_sum id defaultExpiry (NewURLGeneratorWithRestrictions w r) =
           afterCredentials w (os_Getenv w ''GOOGLE_APPLICATION_CREDENTIALS'') (envExpiry w)"
    and "map_sum id bucketName (NewURLGeneratorWithRestrictions w r) =
           afterCredentials w (os_Getenv w ''GOOGLE_APPLICATION_CREDENTIALS'')
             (os_Getenv w ''GCS_BUCKET_NAME'')"
  using assms
  by (simp_all add: NewURLGeneratorWithRestrictions_def afterCredentials_def envExpiry_def
      Let_def split: option.splits)

lemma WithConfig_total:
  assumes "BucketName c \<noteq> [] \<or> os_Getenv w ''GCS_BUCKET_NAME'' \<noteq> []"
  shows "map_sum id defaultExpiry (NewURLGeneratorWithConfig w c) =
           afterCredentials w (ServiceAccountKeyPath c)
             (if 0 <s DefaultExpiryMinutes c then DefaultExpiryMinutes c * time_Minute
              else envExpiry w)"
    and "map_sum id bucketName (NewURLGeneratorWithConfig w c) =
           afterCredentials w (ServiceAccountKeyPath c)
             (if BucketName c = [] then os_Getenv w ''GCS_BUCKET_NAME'' else BucketName c)"
  using assms
  by (auto simp: NewURLGeneratorWithConfig_def afterCredentials_def envExpiry_def
      Let_def split: option.splits)

lemma afterCredentials_none:
  "os_Getenv w ''GCS_SERVICE_ACCOUNT_JSON'' = [] \<Longrightarrow> afterCredentials w [] x = Inr x"
  by (simp add: afterCredentials_def)

text \<open>
  Claim C6. Once the bucket is resolved, what construction returns is the outcome of
  the chain of credential sources, and the expiry it puts in the generator is: 15
  minutes when no source sets it, 30 minutes for the environment value \<open>30\<close>, 15
  minutes for the environment values \<open>-5\<close> and \<open>abc\<close>, which are ignored, and
  the positive \<open>DefaultExpiryMinutes\<close> of the configuration whatever the
  environment says. In particular, where no credentials are configured, construction
  succeeds with that expiry. This holds for the constructor that reads the environment
  only and for the one that takes a configuration. 15 and 30 minutes are 900000000000
  and 1800000000000 nanoseconds.
\<close>

theorem expiry_default:
  "(os_Getenv w ''GCS_BUCKET_NAME'' \<noteq> [] \<longrightarrow>
      (os_Getenv w ''GCS_DEFAULT_EXPIRY_MINUTES'' = [] \<or>
       os_Getenv w ''GCS_DEFAULT_EXPIRY_MINUTES'' = ''-5'' \<or>
       os_Getenv w ''GCS_DEFAULT_EXPIRY_MINUTES'' = ''abc'' \<longrightarrow>
         map_sum id defaultExpiry (NewURLGeneratorWithRestrictions w r) =
           afterCredentials w (os_Getenv w ''GOOGLE_APPLICATION_CREDENTIALS'')
             (15 * time_Minute)) \<and>
      (os_Getenv w ''GCS_DEFAULT_EXPIRY_MINUTES'' = ''30'' \<longrightarrow>
         map_sum id defaultExpiry (NewURLGeneratorWithRestrictions w r) =
           afterCredentials w (os_Getenv w ''GOOGLE_APPLICATION_CREDENTIALS'')
             (30 * time_Minute))) \<and>
   (os_Getenv w ''GCS_BUCKET_NAME'' \<noteq> [] \<and>
    os_Getenv w ''GCS_SERVICE_ACCOUNT_JSON'' = [] \<and>
    os_Getenv w ''GOOGLE_APPLICATION_CREDENTIALS'' = [] \<longrightarrow>
      (os_Getenv w ''GCS_DEFAULT_EXPIRY_MINUTES'' = [] \<or>
       os_Getenv w ''GCS_DEFAULT_EXPIRY_MINUTES'' = ''-5'' \<or>
       os_Getenv w ''GCS_DEFAULT_EXPIRY_MINUTES'' = ''abc'' \<longrightarrow>
         map_sum id defaultExpiry (NewURLGeneratorWithRestrictions w r) =
           Inr (15 * time_Minute)) \<and>
      (os_Getenv w ''GCS_DEFAULT_EXPIRY_MINUTES'' = ''30'' \<longrightarrow>
         map_sum id defaultExpiry (NewURLGeneratorWithRestrictions w r) =
           Inr (30 * time_Minute))) \<and>
   (BucketName c \<noteq> [] \<or> os_Getenv w ''GCS_BUCKET_NAME'' \<noteq> [] \<longrightarrow>
      (0 <s DefaultExpiryMinutes c \<longrightarrow>
         map_sum id defaultExpiry (NewURLGeneratorWithConfig w c) =
           afterCredentials w (ServiceAccountKeyPath c)
             (DefaultExpiryMinutes c * time_Minute)) \<and>
      (\<not> 0 <s DefaultExpiryMinutes c \<longrightarrow>
         (os_Getenv w ''GCS_DEFAULT_EXPIRY_MINUTES'' = [] \<or>
          os_Getenv w ''GCS_DEFAULT_EXPIRY_MINUTES'' = ''-5'' \<or>
          os_Getenv w ''GCS_DEFAULT_EXPIRY_MINUTES'' = ''abc'' \<longrightarrow>
            map_sum id defaultExpiry (NewURLGeneratorWithConfig w c) =
              afterCredentials w (ServiceAccountKeyPath c) (15 * time_Minute)) \<and>
         (os_Getenv w ''GCS_DEFAULT_EXPIRY_MINUTES'' = ''30'' \<longrightarrow>
            map_sum id defaultExpiry (NewURLGeneratorWithConfig w c) =
              afterCredentials w (ServiceAccountKeyPath c) (30 * time_Minute)))) \<and>
   ((BucketName c \<noteq> [] \<or> os_Getenv w ''GCS_BUCKET_NAME'' \<noteq> []) \<and>
    os_Getenv w ''GCS_SERVICE_ACCOUNT_JSON'' = [] \<and> ServiceAccountKeyPath c = [] \<longrightarrow>
      (0 <s DefaultExpiryMinutes c \<longrightarrow>
         map_sum id defaultExpiry (NewURLGeneratorWithConfig w c) =
           Inr (DefaultExpiryMinutes c * time_Minute)) \<and>
      (\<not> 0 <s DefaultExpiryMinutes c \<longrightarrow>
         (os_Getenv w ''GCS_DEFAULT_EXPIRY_MINUTES'' = [] \<or>
          os_Getenv w ''GCS_DEFAULT_EXPIRY_MINUTES'' = ''-5'' \<or>
          os_Getenv w ''GCS_DEFAULT_EXPIRY_MINUTES'' = ''abc'' \<longrightarrow>
            map_sum id defaultExpiry (NewURLGeneratorWithConfig w c) =
              Inr (15 * time_Minute)) \<and>
         (os_Getenv w ''GCS_DEFAULT_EXPIRY_MINUTES'' = ''30'' \<longrightarrow>
            map_sum id defaultExpiry (NewURLGeneratorWithConfig w c) =
              Inr (30 * time_Minute)))) \<and>
   sint (15 * time_Minute) = 900000000000 \<and> sint (30 * time_Minute) = 1800000000000"
proof -
  note e = envExpiry_cases [of w]
  have 1: "os_Getenv w ''GCS_BUCKET_NAME'' \<noteq> [] \<longrightarrow>
      (os_Getenv w ''GCS_DEFAULT_EXPIRY_MINUTES'' = [] \<or>
       os_Getenv w ''GCS_DEFAULT_EXPIRY_MINUTES'' = ''-5'' \<or>
       os_Getenv w ''GCS_DEFAULT_EXPIRY_MINUTES'' = ''abc'' \<longrightarrow>
         map_sum id defaultExpiry (NewURLGeneratorWithRestrictions w r) =
           afterCredentials w (os_Getenv w ''GOOGLE_APPLICATION_CREDENTIALS'')
             (15 * time_Minute)) \<and>
      (os_Getenv w ''GCS_DEFAULT_EXPIRY_MINUTES'' = ''30'' \<longrightarrow>
         map_sum id defaultExpiry (NewURLGeneratorWithRestrictions w r) =
           afterCredentials w (os_Getenv w ''GOOGLE_APPLICATION_CREDENTIALS'')
             (30 * time_Minute))"
    using WithRestrictions_total(1) [of w r] e by metis
  have 2: "os_Getenv w ''GCS_BUCKET_NAME'' \<noteq> [] \<and>
    os_Getenv w ''GCS_SERVICE_ACCOUNT_JSON'' = [] \<and>
    os_Getenv w ''GOOGLE_APPLICATION_CREDENTIALS'' = [] \<longrightarrow>
      (os_Getenv w ''GCS_DEFAULT_EXPIRY_MINUTES'' = [] \<or>
       os_Getenv w ''GCS_DEFAULT_EXPIRY_MINUTES'' = ''-5'' \<or>
       os_Getenv w ''GCS_DEFAULT_EXPIRY_MINUTES'' = ''abc'' \<longrightarrow>
         map_sum id defaultExpiry (NewURLGeneratorWithRestrictions w r) =
           Inr (15 * time_Minute)) \<and>
      (os_Getenv w ''GCS_DEFAULT_EXPIRY_MINUTES'' = ''30'' \<longrightarrow>
         map_sum id defaultExpiry (NewURLGeneratorWithRestrictions w r) =
           Inr (30 * time_Minute))"
    using 1 afterCredentials_none [of w] by metis
  have c: "map_sum id defaultExpiry (NewURLGeneratorWithConfig w c) =
           afterCredentials w (ServiceAccountKeyPath c)
             (if 0 <s DefaultExpiryMinutes c then DefaultExpiryMinutes c * time_Minute
              else envExpiry w)"
    if "BucketName c \<noteq> [] \<or> os_Getenv w ''GCS_BUCKET_NAME'' \<noteq> []"
    using that by (rule WithConfig_total(1))
  have 3: "BucketName c \<noteq> [] \<or> os_Getenv w ''GCS_BUCKET_NAME'' \<noteq> [] \<longrightarrow>
      (0 <s DefaultExpiryMinutes c \<longrightarrow>
         map_sum id defaultExpiry (NewURLGeneratorWithConfig w c) =
           afterCredentials w (ServiceAccountKeyPath c)
             (DefaultExpiryMinutes c * time_Minute)) \<and>
      (\<not> 0 <s DefaultExpiryMinutes c \<longrightarrow>
         (os_Getenv w ''GCS_DEFAULT_EXPIRY_MINUTES'' = [] \<or>
          os_Getenv w ''GCS_DEFAULT_EXPIRY_MINUTES'' = ''-5'' \<or>
          os_Getenv w ''GCS_DEFAULT_EXPIRY_MINUTES'' = ''abc'' \<longrightarrow>
            map_sum id defaultExpiry (NewURLGeneratorWithConfig w c) =
              afterCredentials w (ServiceAccountKeyPath c) (15 * time_Minute)) \<and>
         (os_Getenv w ''GCS_DEFAULT_EXPIRY_MINUTES'' = ''30'' \<longrightarrow>
            map_sum id defaultExpiry (NewURLGeneratorWithConfig w c) =
              afterCredentials w (ServiceAccountKeyPath c) (30 * time_Minute)))"
    using c e by auto
  have 4: "(BucketName c \<noteq> [] \<or> os_Getenv w ''GCS_BUCKET_NAME'' \<noteq> []) \<and>
    os_Getenv w ''GCS_SERVICE_ACCOUNT_JSON'' = [] \<and> ServiceAccountKeyPath c = [] \<longrightarrow>
      (0 <s DefaultExpiryMinutes c \<longrightarrow>
         map_sum id defaultExpiry (NewURLGeneratorWithConfig w c) =
           Inr (DefaultExpiryMinutes c * time_Minute)) \<and>
      (\<not> 0 <s DefaultExpiryMinutes c \<longrightarrow>
         (os_Getenv w ''GCS_DEFAULT_EXPIRY_MINUTES'' = [] \<or>
          os_Getenv w ''GCS_DEFAULT_EXPIRY_MINUTES'' = ''-5'' \<or>
          os_Getenv w ''GCS_DEFAULT_EXPIRY_MINUTES'' = ''abc'' \<longrightarrow>
            map_sum id defaultExpiry (NewURLGeneratorWithConfig w c) =
              Inr (15 * time_Minute)) \<and>
         (os_Getenv w ''GCS_DEFAULT_EXPIRY_MINUTES'' = ''30'' \<longrightarrow>
            map_sum id defaultExpiry (NewURLGeneratorWithConfig w c) =
              Inr (30 * time_Minute)))"
    using 3 afterCredentials_none [of w] by metis
  show ?thesis
    using 1 2 3 4 minutes_exact by blast
qed

lemma Getenv_expiryWorld:
  "os_Getenv expiryWorld ''GCS_DEFAULT_EXPIRY_MINUTES'' = ''30''"
  "os_Getenv expiryWorld ''GCS_BUCKET_NAME'' = ''envbucket''"
  "os_Getenv expiryWorld ''GCP_PROJECT_ID'' = []"
  "os_Getenv expiryWorld ''GCS_SERVICE_ACCOUNT_JSON'' = []"
  "os_Getenv expiryWorld ''GOOGLE_APPLICATION_CREDENTIALS'' = []"
  by (simp_all add: os_Getenv_def expiryWorld_def exampleWorld_def)

lemma Getenv_bucketWorld:
  "os_Getenv bucketWorld ''GCS_DEFAULT_EXPIRY_MINUTES'' = []"
  "os_Getenv bucketWorld ''GCS_BUCKET_NAME'' = ''envbucket''"
  "os_Getenv bucketWorld ''GCS_SERVICE_ACCOUNT_JSON'' = []"
  "os_Getenv bucketWorld ''GOOGLE_APPLICATION_CREDENTIALS'' = []"
  by (simp_all add: os_Getenv_def bucketWorld_def exampleWorld_def)

lemma Getenv_minusFiveWorld:
  "os_Getenv minusFiveWorld ''GCS_DEFAULT_EXPIRY_MINUTES'' = ''-5''"
  "os_Getenv minusFiveWorld ''GCS_BUCKET_NAME'' = ''envbucket''"
  "os_Getenv minusFiveWorld ''GCS_SERVICE_ACCOUNT_JSON'' = []"
  "os_Getenv minusFiveWorld ''GOOGLE_APPLICATION_CREDENTIALS'' = []"
  by (simp_all add: os_Getenv_def minusFiveWorld_def exampleWorld_def)

lemma Getenv_abcWorld:
  "os_Getenv abcWorld ''GCS_DEFAULT_EXPIRY_MINUTES'' = ''abc''"
  "os_Getenv abcWorld ''GCS_BUCKET_NAME'' = ''envbucket''"
  "os_Getenv abcWorld ''GCS_SERVICE_ACCOUNT_JSON'' = []"
  "os_Getenv abcWorld ''GOOGLE_APPLICATION_CREDENTIALS'' = []"
  by (simp_all add: os_Getenv_def abcWorld_def exampleWorld_def)

lemma example_configs:
  "DefaultExpiryMinutes expiryConfig = 45" "0 <s DefaultExpiryMinutes expiryConfig"
  "\<not> 0 <s DefaultExpiryMinutes exampleConfig"
  "BucketName exampleConfig = ''mine''" "BucketName expiryConfig = ''mine''"
  "ServiceAccountKeyPath exampleConfig = []" "ServiceAccountKeyPath expiryConfig = []"
  by (simp_all add: expiryConfig_def exampleConfig_def word_sless_alt)

text \<open>
  Worlds with a bucket and no credentials configured, whose environment leaves the
  expiry unset or sets it to \<open>30\<close>, \<open>-5\<close> or \<open>abc\<close>; a configuration that sets
  45 minutes and one that sets none.
\<close>

theorem expiry_default_witness:
  "os_Getenv bucketWorld ''GCS_DEFAULT_EXPIRY_MINUTES'' = [] \<and>
   map_sum id defaultExpiry (NewURLGeneratorWithRestrictions bucketWorld None) =
     Inr (15 * time_Minute) \<and>
   os_Getenv expiryWorld ''GCS_DEFAULT_EXPIRY_MINUTES'' = ''30'' \<and>
   map_sum id defaultExpiry (NewURLGeneratorWithRestrictions expiryWorld None) =
     Inr (30 * time_Minute) \<and>
   os_Getenv minusFiveWorld ''GCS_DEFAULT_EXPIRY_MINUTES'' = ''-5'' \<and>
   map_sum id defaultExpiry (NewURLGeneratorWithRestrictions minusFiveWorld None) =
     Inr (15 * time_Minute) \<and>
   os_Getenv abcWorld ''GCS_DEFAULT_EXPIRY_MINUTES'' = ''abc'' \<and>
   map_sum id defaultExpiry (NewURLGeneratorWithRestrictions abcWorld None) =
     Inr (15 * time_Minute) \<and>
   0 <s DefaultExpiryMinutes expiryConfig \<and>
   map_sum id defaultExpiry (NewURLGeneratorWithConfig expiryWorld expiryConfig) =
     Inr (45 * time_Minute) \<and>
   \<not> 0 <s DefaultExpiryMinutes exampleConfig \<and>
   map_sum id defaultExpiry (NewURLGeneratorWithConfig expiryWorld exampleConfig) =
     Inr (30 * time_Minute) \<and>
   map_sum id defaultExpiry (NewURLGeneratorWithConfig abcWorld exampleConfig) =
     Inr (15 * time_Minute)"
proof -
  have ne: "os_Getenv bucketWorld ''GCS_BUCKET_NAME'' \<noteq> []"
    "os_Getenv expiryWorld ''GCS_BUCKET_NAME'' \<noteq> []"
    "os_Getenv minusFiveWorld ''GCS_BUCKET_NAME'' \<noteq> []"
    "os_Getenv abcWorld ''GCS_BUCKET_NAME'' \<noteq> []"
    by (simp_all add: Getenv_bucketWorld Getenv_expiryWorld Getenv_minusFiveWorld
        Getenv_abcWorld)
  have 1: "map_sum id defaultExpiry (NewURLGeneratorWithRestrictions bucketWorld None) =
     Inr (15 * time_Minute)"
    using expiry_default [of bucketWorld None exampleConfig] ne(1) Getenv_bucketWorld(1,3,4)
    by blast
  have 2: "map_sum id defaultExpiry (NewURLGeneratorWithRestrictions expiryWorld None) =
     Inr (30 * time_Minute)"
    using expiry_default [of expiryWorld None exampleConfig] ne(2) Getenv_expiryWorld(1,4,5)
    by blast
  have 3: "map_sum id defaultExpiry (NewURLGeneratorWithRestrictions minusFiveWorld None) =
     Inr (15 * time_Minute)"
    using expiry_default [of minusFiveWorld None exampleConfig] ne(3)
      Getenv_minusFiveWorld(1,3,4)
    by blast
  have 4: "map_sum id defaultExpiry (NewURLGeneratorWithRestrictions abcWorld None) =
     Inr (15 * time_Minute)"
    using expiry_default [of abcWorld None exampleConfig] ne(4) Getenv_abcWorld(1,3,4)
    by blast
  have "map_sum id defaultExpiry (NewURLGeneratorWithConfig expiryWorld expiryConfig) =
     Inr (DefaultExpiryMinutes expiryConfig * time_Minute)"
    using expiry_default [of expiryWorld None expiryConfig] ne(2) Getenv_expiryWorld(4)
      example_configs(2,7)
    by blast
  then have 5: "map_sum id defaultExpiry (NewURLGeneratorWithConfig expiryWorld expiryConfig) =
     Inr (45 * time_Minute)"
    by (simp add: example_configs(1))
  have 6: "map_sum id defaultExpiry (NewURLGeneratorWithConfig expiryWorld exampleConfig) =
     Inr (30 * time_Minute)"
    using expiry_default [of expiryWorld None exampleConfig] ne(2) Getenv_expiryWorld(1,4)
      example_configs(3,6)
    by blast
  have 7: "map_sum id defaultExpiry (NewURLGeneratorWithConfig abcWorld exampleConfig) =
     Inr (15 * time_Minute)"
    using expiry_default [of abcWorld None exampleConfig] ne(4) Getenv_abcWorld(1,3)
      example_configs(3,6)
    by blast
  show ?thesis
    using 1 2 3 4 5 6 7 Getenv_bucketWorld(1) Getenv_expiryWorld(1)
      Getenv_minusFiveWorld(1) Getenv_abcWorld(1) example_configs(2,3)
    by blast
qed

lemma Getenv_other:
  "k \<noteq> k' \<Longrightarrow> os_Getenv (w\<lparr>environ := (environ w)(k' := v)\<rparr>) k = os_Getenv w k"
  by (simp add: os_Getenv_def)

lemma WithConfig_env_bucket_ignored:
  assumes "BucketName c \<noteq> []"
  shows "NewURLGeneratorWithConfig (w\<lparr>environ := (environ w)(''GCS_BUCKET_NAME'' := v)\<rparr>) c =
         NewURLGeneratorWithConfig w c"
proof -
  let ?w = "w\<lparr>environ := (environ w)(''GCS_BUCKET_NAME'' := v)\<rparr>"
  have 1: "os_Getenv ?w ''GCS_DEFAULT_EXPIRY_MINUTES'' = os_Getenv w ''GCS_DEFAULT_EXPIRY_MINUTES''"
    by (rule Getenv_other) simp
  have 2: "os_Getenv ?w ''GCS_SERVICE_ACCOUNT_JSON'' = os_Getenv w ''GCS_SERVICE_ACCOUNT_JSON''"
    by (rule Getenv_other) simp
  have 3: "files ?w = files w" "json_Unmarshal ?w = json_Unmarshal w"
    by simp_all
  show ?thesis
    unfolding NewURLGeneratorWithConfig_def 1 2 3 using assms by simp
qed

text \<open>
  Claim C5. With an explicit bucket (the argument of the constructor or the field of
  the configuration), what construction returns is the outcome of the chain of
  credential sources with the explicit bucket in the generator, never an error about
  the bucket; where no credentials are configured it succeeds with the explicit bucket;
  and the value of \<open>GCS_BUCKET_NAME\<close> has no effect on the result. With neither an
  explicit bucket nor the environment variable, construction returns a configuration
  error and no generator.
\<close>

theorem config_precedence:
  "(b \<noteq> [] \<longrightarrow>
      map_sum id bucketName (NewURLGeneratorWithBucket w b) = afterCredentials w [] b \<and>
      map_sum id bucketName (NewURLGeneratorWithBucketAndRestrictions w b r) =
        afterCredentials w [] b \<and>
      (os_Getenv w ''GCS_SERVICE_ACCOUNT_JSON'' = [] \<longrightarrow>
         map_sum id bucketName (NewURLGeneratorWithBucket w b) = Inr b \<and>
         map_sum id bucketName (NewURLGeneratorWithBucketAndRestrictions w b r) = Inr b) \<and>
      NewURLGeneratorWithBucket (w\<lparr>environ := (environ w)(''GCS_BUCKET_NAME'' := v)\<rparr>) b =
        NewURLGeneratorWithBucket w b \<and>
      NewURLGeneratorWithBucketAndRestrictions
        (w\<lparr>environ := (environ w)(''GCS_BUCKET_NAME'' := v)\<rparr>) b r =
        NewURLGeneratorWithBucketAndRestrictions w b r) \<and>
   (BucketName c \<noteq> [] \<longrightarrow>
      map_sum id bucketName (NewURLGeneratorWithConfig w c) =
        afterCredentials w (ServiceAccountKeyPath c) (BucketName c) \<and>
      (os_Getenv w ''GCS_SERVICE_ACCOUNT_JSON'' = [] \<and> ServiceAccountKeyPath c = [] \<longrightarrow>
         map_sum id bucketName (NewURLGeneratorWithConfig w c) = Inr (BucketName c)) \<and>
      NewURLGeneratorWithConfig (w\<lparr>environ := (environ w)(''GCS_BUCKET_NAME'' := v)\<rparr>) c =
        NewURLGeneratorWithConfig w c) \<and>
   (BucketName c = [] \<and> os_Getenv w ''GCS_BUCKET_NAME'' = [] \<longrightarrow>
      NewURLGeneratorWithConfig w c = Inl BucketNameRequired) \<and>
   (os_Getenv w ''GCS_BUCKET_NAME'' = [] \<longrightarrow>
      NewURLGenerator w = Inl BucketEnvRequired \<and>
      NewURLGeneratorWithRestrictions w r = Inl BucketEnvRequired \<and>
      NewURLGeneratorWithBucket w [] = Inl BucketNameEmpty \<and>
      NewURLGeneratorWithBucketAndRestrictions w [] r = Inl BucketNameEmpty) \<and>
   kind_of BucketNameRequired = ConfigurationError \<and>
   kind_of BucketEnvRequired = ConfigurationError \<and>
   kind_of BucketNameEmpty = ConfigurationError"
proof -
  have wb: "NewURLGeneratorWithBucket w b =
      NewURLGeneratorWithConfig w
        \<lparr>ProjectID = [], BucketName = b, ServiceAccountKeyPath = [],
         DefaultExpiryMinutes = 0, ConfigUploadRestrictions = None\<rparr>"
    if "b \<noteq> []" for w
    using that by (simp add: NewURLGeneratorWithBucket_def)
  have wbr: "NewURLGeneratorWithBucketAndRestrictions w b r =
      NewURLGeneratorWithConfig w
        \<lparr>ProjectID = [], BucketName = b, ServiceAccountKeyPath = [],
         DefaultExpiryMinutes = 0, ConfigUploadRestrictions = r\<rparr>"
    if "b \<noteq> []" for w
    using that by (simp add: NewURLGeneratorWithBucketAndRestrictions_def)
  have 1: "b \<noteq> [] \<longrightarrow>
      map_sum id bucketName (NewURLGeneratorWithBucket w b) = afterCredentials w [] b \<and>
      map_sum id bucketName (NewURLGeneratorWithBucketAndRestrictions w b r) =
        afterCredentials w [] b"
    by (simp add: wb wbr WithConfig_total(2))
  have 2: "b \<noteq> [] \<longrightarrow>
      (os_Getenv w ''GCS_SERVICE_ACCOUNT_JSON'' = [] \<longrightarrow>
         map_sum id bucketName (NewURLGeneratorWithBucket w b) = Inr b \<and>
         map_sum id bucketName (NewURLGeneratorWithBucketAndRestrictions w b r) = Inr b)"
    using 1 by (simp add: afterCredentials_none)
  have 3: "b \<noteq> [] \<longrightarrow>
      NewURLGeneratorWithBucket (w\<lparr>environ := (environ w)(''GCS_BUCKET_NAME'' := v)\<rparr>) b =
        NewURLGeneratorWithBucket w b \<and>
      NewURLGeneratorWithBucketAndRestrictions
        (w\<lparr>environ := (environ w)(''GCS_BUCKET_NAME'' := v)\<rparr>) b r =
        NewURLGeneratorWithBucketAndRestrictions w b r"
    by (simp add: wb wbr WithConfig_env_bucket_ignored)
  have 4: "BucketName c \<noteq> [] \<longrightarrow>
      map_sum id bucketName (NewURLGeneratorWithConfig w c) =
        afterCredentials w (ServiceAccountKeyPath c) (BucketName c)"
    by (simp add: WithConfig_total(2))
  have 5: "BucketName c \<noteq> [] \<longrightarrow>
      (os_Getenv w ''GCS_SERVICE_ACCOUNT_JSON'' = [] \<and> ServiceAccountKeyPath c = [] \<longrightarrow>
         map_sum id bucketName (NewURLGeneratorWithConfig w c) = Inr (BucketName c))"
    using 4 by (simp add: afterCredentials_none)
  have 6: "BucketName c \<noteq> [] \<longrightarrow>
      NewURLGeneratorWithConfig (w\<lparr>environ := (environ w)(''GCS_BUCKET_NAME'' := v)\<rparr>) c =
        NewURLGeneratorWithConfig w c"
    by (simp add: WithConfig_env_bucket_ignored)
  have 7: "BucketName c = [] \<and> os_Getenv w ''GCS_BUCKET_NAME'' = [] \<longrightarrow>
      NewURLGeneratorWithConfig w c = Inl BucketNameRequired"
    by (simp add: NewURLGeneratorWithConfig_def)
  have 8: "os_Getenv w ''GCS_BUCKET_NAME'' = [] \<longrightarrow>
      NewURLGenerator w = Inl BucketEnvRequired \<and>
      NewURLGeneratorWithRestrictions w r = Inl BucketEnvRequired"
    by (simp add: NewURLGenerator_def NewURLGeneratorWithRestrictions_def)
  have 9: "NewURLGeneratorWithBucket w [] = Inl BucketNameEmpty \<and>
      NewURLGeneratorWithBucketAndRestrictions w [] r = Inl BucketNameEmpty"
    by (simp add: NewURLGeneratorWithBucket_def NewURLGeneratorWithBucketAndRestrictions_def)
  show ?thesis
    using 1 2 3 4 5 6 7 8 9 by simp
qed

text \<open>
  The explicit bucket \<open>mine\<close> against the environment's \<open>envbucket\<close>, and the
  example world, which has no bucket at all.
\<close>

theorem config_precedence_witness:
  "os_Getenv expiryWorld ''GCS_BUCKET_NAME'' = ''envbucket'' \<and>
   os_Getenv expiryWorld ''GCS_SERVICE_ACCOUNT_JSON'' = [] \<and>
   map_sum id bucketName (NewURLGeneratorWithBucket expiryWorld ''mine'') = Inr ''mine'' \<and>
   map_sum id bucketName (NewURLGeneratorWithConfig expiryWorld exampleConfig) = Inr ''mine'' \<and>
   os_Getenv exampleWorld ''GCS_BUCKET_NAME'' = [] \<and>
   NewURLGeneratorWithConfig exampleWorld (exampleConfig\<lparr>BucketName := []\<rparr>) =
     Inl BucketNameRequired \<and>
   NewURLGenerator exampleWorld = Inl BucketEnvRequired"
proof -
  have e: "os_Getenv exampleWorld ''GCS_BUCKET_NAME'' = []"
    by (simp add: os_Getenv_def exampleWorld_def)
  have n: "BucketName (exampleConfig\<lparr>BucketName := []\<rparr>) = []"
    by simp
  have m: "''mine'' \<noteq> []"
    by simp
  note t1 = config_precedence [of "''mine''" expiryWorld _ _ exampleConfig]
  note t2 = config_precedence [of _ exampleWorld _ _ "exampleConfig\<lparr>BucketName := []\<rparr>"]
  have 1: "map_sum id bucketName (NewURLGeneratorWithBucket expiryWorld ''mine'') = Inr ''mine''"
    using t1 m Getenv_expiryWorld(4) by blast
  have 2: "map_sum id bucketName (NewURLGeneratorWithConfig expiryWorld exampleConfig) =
             Inr (BucketName exampleConfig)"
    using t1 example_configs(4,6) Getenv_expiryWorld(4) m by metis
  have 3: "NewURLGeneratorWithConfig exampleWorld (exampleConfig\<lparr>BucketName := []\<rparr>) =
     Inl BucketNameRequired"
    using t2 e n by blast
  have 4: "NewURLGenerator exampleWorld = Inl BucketEnvRequired"
    using t2 e by blast
  show ?thesis
    using 1 2 3 4 e Getenv_expiryWorld(2,4) example_configs(4) by simp
qed

section \<open>Resolution of credentials at construction\<close>

lemma Getenv_credentialsWorld:
  "os_Getenv credentialsWorld ''GCS_BUCKET_NAME'' = ''envbucket''"
  "os_Getenv credentialsWorld ''GOOGLE_APPLICATION_CREDENTIALS'' = ''/key.json''"
  "os_Getenv credentialsWorld ''GCS_SERVICE_ACCOUNT_JSON'' = []"
  "os_Getenv credentialsWorld ''GCS_DEFAULT_EXPIRY_MINUTES'' = []"
  "os_Getenv credentialsWorld ''GCP_PROJECT_ID'' = []"
  by (simp_all add: os_Getenv_def credentialsWorld_def exampleWorld_def)

lemma files_credentialsWorld:
  "files credentialsWorld ''/key.json'' = Some ''{}''"
  "json_Unmarshal credentialsWorld ''{}'' = Some exampleAccount"
  by (simp_all add: credentialsWorld_def exampleWorld_def)

text \<open>
  The chain of credential sources, for each constructor once the bucket is resolved:
  the JSON blob of the environment first, a parse failure being fatal; then the file,
  whose path \<open>NewURLGeneratorWithRestrictions\<close> takes from
  \<open>GOOGLE_APPLICATION_CREDENTIALS\<close> and \<open>NewURLGeneratorWithConfig\<close> from
  the field \<open>ServiceAccountKeyPath\<close> only; then no signing identity.
\<close>

lemma credential_chain_WithRestrictions:
  assumes "os_Getenv w ''GCS_BUCKET_NAME'' \<noteq> []"
  shows "(os_Getenv w ''GCS_SERVICE_ACCOUNT_JSON'' \<noteq> [] \<longrightarrow>
            map_sum id svcAccount (NewURLGeneratorWithRestrictions w r) =
              (case json_Unmarshal w (os_Getenv w ''GCS_SERVICE_ACCOUNT_JSON'') of
                 None \<Rightarrow> Inl ParseServiceAccountEnvFailed
               | Some sa \<Rightarrow> Inr (Some sa))) \<and>
         (os_Getenv w ''GCS_SERVICE_ACCOUNT_JSON'' = [] \<and>
          os_Getenv w ''GOOGLE_APPLICATION_CREDENTIALS'' \<noteq> [] \<longrightarrow>
            map_sum id svcAccount (NewURLGeneratorWithRestrictions w r) =
              (case files w (os_Getenv w ''GOOGLE_APPLICATION_CREDENTIALS'') of
                 None \<Rightarrow>
                   Inl (ReadServiceAccountFileFailed
                          (os_Getenv w ''GOOGLE_APPLICATION_CREDENTIALS''))
               | Some data \<Rightarrow>
                   (case json_Unmarshal w data of
                      None \<Rightarrow>
                        Inl (ParseServiceAccountFileFailed
                               (os_Getenv w ''GOOGLE_APPLICATION_CREDENTIALS''))
                    | Some sa \<Rightarrow> Inr (Some sa)))) \<and>
         (os_Getenv w ''GCS_SERVICE_ACCOUNT_JSON'' = [] \<and>
          os_Getenv w ''GOOGLE_APPLICATION_CREDENTIALS'' = [] \<longrightarrow>
            map_sum id svcAccount (NewURLGeneratorWithRestrictions w r) = Inr None)"
  using assms
  by (simp add: NewURLGeneratorWithRestrictions_def Let_def split: option.splits)

lemma credential_chain_WithConfig:
  assumes "BucketName c \<noteq> [] \<or> os_Getenv w ''GCS_BUCKET_NAME'' \<noteq> []"
  shows "(os_Getenv w ''GCS_SERVICE_ACCOUNT_JSON'' \<noteq> [] \<longrightarrow>
            map_sum id svcAccount (NewURLGeneratorWithConfig w c) =
              (case json_Unmarshal w (os_Getenv w ''GCS_SERVICE_ACCOUNT_JSON'') of
                 None \<Rightarrow> Inl ParseServiceAccountEnvFailed
               | Some sa \<Rightarrow> Inr (Some sa))) \<and>
         (os_Getenv w ''GCS_SERVICE_ACCOUNT_JSON'' = [] \<and>
          ServiceAccountKeyPath c \<noteq> [] \<longrightarrow>
            map_sum id svcAccount (NewURLGeneratorWithConfig w c) =
              (case files w (ServiceAccountKeyPath c) of
                 None \<Rightarrow> Inl (ReadServiceAccountFileFailed (ServiceAccountKeyPath c))
               | Some data \<Rightarrow>
                   (case json_Unmarshal w data of
                      None \<Rightarrow> Inl (ParseServiceAccountFileFailed (ServiceAccountKeyPath c))
                    | Some sa \<Rightarrow> Inr (Some sa)))) \<and>
         (os_Getenv w ''GCS_SERVICE_ACCOUNT_JSON'' = [] \<and>
          ServiceAccountKeyPath c = [] \<longrightarrow>
            map_sum id svcAccount (NewURLGeneratorWithConfig w c) = Inr None)"
  using assms
  by (auto simp: NewURLGeneratorWithConfig_def Let_def split: option.splits)

text \<open>
  Claim C3 at an input where the constructors differ. The environment gives no JSON
  blob and gives the path of a readable, well-formed credentials file in
  \<open>GOOGLE_APPLICATION_CREDENTIALS\<close>. \<open>NewURLGenerator\<close> reads the file and loads
  the account. \<open>NewURLGeneratorWithBucket\<close> and \<open>NewURLGeneratorWithConfig\<close> never
  look at the variable: they succeed with no signing identity, and the first upload
  fails because no service account is loaded.
\<close>

theorem credentials_file_from_environment_ignored:
  "os_Getenv credentialsWorld ''GCS_SERVICE_ACCOUNT_JSON'' = [] \<and>
   os_Getenv credentialsWorld ''GOOGLE_APPLICATION_CREDENTIALS'' = ''/key.json'' \<and>
   map_sum id svcAccount (NewURLGenerator credentialsWorld) = Inr (Some exampleAccount) \<and>
   map_sum id svcAccount (NewURLGeneratorWithBucket credentialsWorld ''mine'') = Inr None \<and>
   map_sum id svcAccount (NewURLGeneratorWithConfig credentialsWorld exampleConfig) = Inr None \<and>
   snd (case NewURLGeneratorWithBucket credentialsWorld ''mine'' of
          Inl e \<Rightarrow> ([], Inl e)
        | Inr g \<Rightarrow> GenerateSignedUploadURL credentialsWorld g ''a.pdf'') =
     Inl ServiceAccountNotLoaded"
proof -
  have 1: "map_sum id svcAccount (NewURLGenerator credentialsWorld) = Inr (Some exampleAccount)"
    by (simp add: NewURLGenerator_def NewURLGeneratorWithRestrictions_def
        Getenv_credentialsWorld files_credentialsWorld Let_def)
  have c: "NewURLGeneratorWithBucket credentialsWorld ''mine'' =
           NewURLGeneratorWithConfig credentialsWorld exampleConfig"
    by (simp add: NewURLGeneratorWithBucket_def exampleConfig_def)
  have g: "NewURLGeneratorWithConfig credentialsWorld exampleConfig =
      Inr \<lparr>serviceAccountKeyPath = [], svcAccount = None, serviceAccountJSON = [],
           projectID = [], bucketName = ''mine'', defaultExpiry = 15 * time_Minute,
           uploadRestrictions = \<lparr>AllowMultiple = True, AllowedExtensions = [],
                                  MaxFileSizeMB = 0, MaxFileSizeBytes = 0\<rparr>\<rparr>"
    by (simp add: NewURLGeneratorWithConfig_def Getenv_credentialsWorld Let_def
        exampleConfig_def)
  have r: "\<not> rand_fails credentialsWorld"
    by (simp add: credentialsWorld_def exampleWorld_def)
  have u: "\<exists>k. generateUniqueObjectName credentialsWorld ''a.pdf'' = Inr k"
    using generateUniqueObjectName_cases [of credentialsWorld "''a.pdf''"] r by simp
  have s: "snd (GenerateSignedUploadURL credentialsWorld
      \<lparr>serviceAccountKeyPath = [], svcAccount = None, serviceAccountJSON = [],
           projectID = [], bucketName = ''mine'', defaultExpiry = 15 * time_Minute,
           uploadRestrictions = \<lparr>AllowMultiple = True, AllowedExtensions = [],
                                  MaxFileSizeMB = 0, MaxFileSizeBytes = 0\<rparr>\<rparr> ''a.pdf'') =
     Inl ServiceAccountNotLoaded"
    using u
    by (auto simp: GenerateSignedUploadURL_def hasRestrictions_def withNames_def
        GenerateSignedUploadURLWithExpiry_def getServiceAccount_def)
  show ?thesis
    using 1 s by (simp add: c g Getenv_credentialsWorld)
qed

section \<open>The upload operations\<close>

lemma bucketName_update_irrelevant:
  "hasRestrictions (u\<lparr>bucketName := b\<rparr>) = hasRestrictions u"
  "ValidateUpload w (u\<lparr>bucketName := b\<rparr>) p = ValidateUpload w u p"
  "generateUploadURLWithRestrictions w (u\<lparr>bucketName := b\<rparr>) b' k x =
     generateUploadURLWithRestrictions w u b' k x"
  "GenerateSignedUploadURLWithExpiry w (u\<lparr>bucketName := b\<rparr>) b' k x =
     GenerateSignedUploadURLWithExpiry w u b' k x"
  by (simp_all add: hasRestrictions_def ValidateUpload_def Let_def
      generateUploadURLWithRestrictions_def GenerateSignedUploadURLWithExpiry_def
      getServiceAccount_def split: sum.splits option.splits)

lemma WithBucket_eq:
  "GenerateSignedUploadURLWithBucket w u b p = GenerateSignedUploadURL w (u\<lparr>bucketName := b\<rparr>) p"
  by (simp add: GenerateSignedUploadURLWithBucket_def GenerateSignedUploadURL_def
      bucketName_update_irrelevant split: sum.splits option.splits)

lemma WithBucket_rejects:
  assumes "hasRestrictions u" and "ValidateUpload w u p = Some e"
  shows "fst (GenerateSignedUploadURLWithBucket w u b p) = []"
    and "\<not> rand_fails w \<Longrightarrow> GenerateSignedUploadURLWithBucket w u b p = ([], Inl e)"
  using assms generateUniqueObjectName_cases [of w p]
  by (auto simp: GenerateSignedUploadURLWithBucket_def)

lemma WithBucket_key:
  assumes "snd (GenerateSignedUploadURLWithBucket w u b p) = Inr up"
  shows "generateUniqueObjectName w p = Inr (GeneratedKey up) \<and> OriginalName up = p"
  using assms
  by (auto simp: GenerateSignedUploadURLWithBucket_def withNames_def
      split: sum.splits if_splits option.splits)

lemma WithExpiry_verbatim:
  "snd (GenerateSignedUploadURLWithExpiry w u b p x) = Inr up \<Longrightarrow>
     GeneratedKey up = p \<and> OriginalName up = p"
  by (auto simp: GenerateSignedUploadURLWithExpiry_def Let_def
      split: sum.splits option.splits)

lemma WithExpiry_errors:
  "snd (GenerateSignedUploadURLWithExpiry w u b p x) = Inl err \<Longrightarrow>
     err = ServiceAccountNotLoaded \<or> err = SignedUploadURLFailed"
  by (auto simp: GenerateSignedUploadURLWithExpiry_def Let_def getServiceAccount_def
      split: sum.splits option.splits)

lemma WithExpiry_signs:
  "svcAccount u = Some sa \<Longrightarrow>
     fst (GenerateSignedUploadURLWithExpiry w u b p x) =
       [(b, p, \<lparr>so_Method = ''PUT'', so_Expires = time_Now w + sint x,
                so_ContentType = ''application/octet-stream'', so_Headers = [],
                so_GoogleAccessID = ClientEmail sa, so_PrivateKey = PrivateKey sa\<rparr>)]"
  by (auto simp: GenerateSignedUploadURLWithExpiry_def Let_def getServiceAccount_def
      split: sum.splits option.splits)

text \<open>
  Claim C1, amended. \<open>GenerateSignedUploadURLWithBucket\<close> is
  \<open>GenerateSignedUploadURL\<close> on the generator whose default bucket is replaced by
  the given one: it validates alike, makes no signing call for a rejected file name,
  and on success its key is the derived unique name and its original name is the path.
  \<open>GenerateSignedUploadURLWithExpiry\<close> signs the given name as it is: on success
  key and original name are the path, its only errors are the missing service account
  and the failure of the signing primitive, never a validation error, and with a loaded
  account it always makes one signing call, for the given bucket, name and expiry.
\<close>

theorem upload_variants:
  "GenerateSignedUploadURLWithBucket w u b p =
     GenerateSignedUploadURL w (u\<lparr>bucketName := b\<rparr>) p \<and>
   (hasRestrictions u \<and> ValidateUpload w u p = Some e \<longrightarrow>
      fst (GenerateSignedUploadURLWithBucket w u b p) = [] \<and>
      (\<not> rand_fails w \<longrightarrow> GenerateSignedUploadURLWithBucket w u b p = ([], Inl e))) \<and>
   (\<forall>up. snd (GenerateSignedUploadURLWithBucket w u b p) = Inr up \<longrightarrow>
      generateUniqueObjectName w p = Inr (GeneratedKey up) \<and> OriginalName up = p) \<and>
   (\<forall>up. snd (GenerateSignedUploadURLWithExpiry w u b p x) = Inr up \<longrightarrow>
      GeneratedKey up = p \<and> OriginalName up = p) \<and>
   (\<forall>err. snd (GenerateSignedUploadURLWithExpiry w u b p x) = Inl err \<longrightarrow>
      err = ServiceAccountNotLoaded \<or> err = SignedUploadURLFailed) \<and>
   (\<forall>sa. svcAccount u = Some sa \<longrightarrow>
      fst (GenerateSignedUploadURLWithExpiry w u b p x) =
        [(b, p, \<lparr>so_Method = ''PUT'', so_Expires = time_Now w + sint x,
                 so_ContentType = ''application/octet-stream'', so_Headers = [],
                 so_GoogleAccessID = ClientEmail sa, so_PrivateKey = PrivateKey sa\<rparr>)])"
  using WithBucket_eq [of w u b p] WithBucket_rejects [where u = u and p = p and e = e and w = w and b = b]
    WithBucket_key [of w u b p] WithExpiry_verbatim [of w u b p x]
    WithExpiry_errors [of w u b p x] WithExpiry_signs [of u _ w b p x]
  by blast

section \<open>Derivation of unique keys\<close>

lemma Split_no_sep: "c \<notin> set e \<Longrightarrow> strings_Split e c = [e]"
  by (induction e) auto

lemma Split_append_sep:
  "c \<notin> set u \<Longrightarrow> strings_Split (d @ c # u) c = strings_Split d c @ [u]"
proof (induction d)
  case Nil
  then show ?case by (simp add: Split_no_sep)
next
  case (Cons x xs)
  have ne: "strings_Split xs c \<noteq> []" by (rule Split_not_Nil)
  show ?case
    using Cons ne by simp
qed

lemma Join_Cons_Cons: "strings_Join ((x # h) # t) sep = x # strings_Join (h # t) sep"
  by (cases t) simp_all

lemma Join_Nil_Cons: "r \<noteq> [] \<Longrightarrow> strings_Join ([] # r) sep = sep @ strings_Join r sep"
  by (cases r) simp_all

lemma Join_Split: "strings_Join (strings_Split s c) [c] = s"
proof (induction s)
  case Nil
  show ?case by simp
next
  case (Cons x xs)
  obtain h t where ht: "strings_Split xs c = h # t"
    using Split_not_Nil [of xs c] by (cases "strings_Split xs c") auto
  show ?case
  proof (cases "x = c")
    case True
    then show ?thesis
      using Cons by (simp add: Join_Nil_Cons Split_not_Nil)
  next
    case False
    then show ?thesis
      using Cons ht by (simp add: Join_Cons_Cons)
  qed
qed

lemma Join_snoc: "es \<noteq> [] \<Longrightarrow> strings_Join (es @ [u]) sep = strings_Join es sep @ sep @ u"
proof (induction es)
  case Nil
  then show ?case by simp
next
  case (Cons e es)
  show ?case
  proof (cases es)
    case Nil
    then show ?thesis by simp
  next
    case (Cons f fs)
    then have "strings_Join ((e # es) @ [u]) sep = e @ sep @ strings_Join (es @ [u]) sep"
      by simp
    also have "\<dots> = e @ sep @ strings_Join es sep @ sep @ u"
      using Cons.IH Cons by simp
    finally show ?thesis using Cons by simp
  qed
qed

lemma foldl_cleanStep_names:
  "list_all isName es \<Longrightarrow> foldl (cleanStep rooted) out es = rev es @ out"
  by (induction es arbitrary: out) (auto simp: cleanStep_def isName_def)

lemma cleanStep_Nil: "cleanStep rooted out [] = out"
  by (simp add: cleanStep_def)

lemma cleanStep_name: "isName u \<Longrightarrow> cleanStep rooted out u = u # out"
  by (simp add: cleanStep_def isName_def)

lemma foldl_names_slash:
  "list_all isName es \<Longrightarrow> foldl (cleanStep rooted) [] (es @ [[]]) = rev es"
  by (simp add: foldl_cleanStep_names cleanStep_Nil)

lemma foldl_names_name:
  "list_all isName es \<Longrightarrow> isName u \<Longrightarrow> foldl (cleanStep rooted) [] (es @ [u]) = u # rev es"
  by (simp add: foldl_cleanStep_names cleanStep_name)

text \<open>
  The elements that \<open>filepath.Clean\<close> keeps of a clean prefix \<open>d\<close>, and \<open>d\<close> as
  their concatenation.
\<close>

lemma cleanPrefix_elements:
  assumes "cleanPrefix d" "d \<noteq> []"
  shows "\<exists>es. es \<noteq> [] \<and> list_all isName es \<and>
    d = (if hd d = Separator then [Separator] else []) @ strings_Join es [Separator] \<and>
    (\<forall>u. foldl (cleanStep (hd d = Separator)) [] (strings_Split d Separator @ [u]) =
              foldl (cleanStep (hd d = Separator)) [] (es @ [u]))"
proof (cases "hd d = Separator")
  case False
  let ?es = "strings_Split d Separator"
  have "?es \<noteq> []" by (rule Split_not_Nil)
  moreover have "list_all isName ?es"
    using assms False by (simp add: cleanPrefix_def)
  moreover have "d = (if hd d = Separator then [Separator] else []) @ strings_Join ?es [Separator]"
    using False by (simp add: Join_Split)
  ultimately show ?thesis
    by blast
next
  case True
  then obtain d' where d': "d = Separator # d'"
    using assms(2) by (cases d) auto
  let ?r = "tl (strings_Split d Separator)"
  have es: "strings_Split d Separator = [] # ?r"
    using d' by simp
  have rne: "?r \<noteq> []" and names: "list_all isName ?r"
    using assms True by (simp_all add: cleanPrefix_def)
  have "strings_Join ([] # ?r) [Separator] = d"
    using Join_Split [of d Separator] es by simp
  then have dj: "d = (if hd d = Separator then [Separator] else []) @ strings_Join ?r [Separator]"
    using True rne by (simp add: Join_Nil_Cons)
  have f: "foldl (cleanStep (hd d = Separator)) [] (strings_Split d Separator @ [u]) =
              foldl (cleanStep (hd d = Separator)) [] (?r @ [u])" for u
    by (subst es) (simp add: cleanStep_Nil)
  show ?thesis
    using rne names dj f by blast
qed

lemma Clean_unfold:
  assumes "d \<noteq> []" "Separator \<notin> set u"
  shows "filepath_Clean (d @ Separator # u) =
     (let s = (if hd d = Separator then [Separator] else []) @
              strings_Join
                (rev (foldl (cleanStep (hd d = Separator)) []
                        (strings_Split d Separator @ [u]))) [Separator]
      in if s = [] then ''.'' else s)"
proof -
  have "hd (d @ Separator # u) = hd d"
    using assms(1) by simp
  then show ?thesis
    by (simp only: filepath_Clean_def Split_append_sep [OF assms(2)] Let_def) simp
qed

lemma Clean_prefix_slash:
  assumes "cleanPrefix d" "d \<noteq> []"
  shows "filepath_Clean (d @ [Separator]) = d"
proof -
  obtain es where es: "es \<noteq> []" "list_all isName es"
    "d = (if hd d = Separator then [Separator] else []) @ strings_Join es [Separator]"
    "\<forall>u. foldl (cleanStep (hd d = Separator)) [] (strings_Split d Separator @ [u]) =
              foldl (cleanStep (hd d = Separator)) [] (es @ [u])"
    using cleanPrefix_elements [OF assms] by blast
  have nil: "Separator \<notin> set []"
    by simp
  have "filepath_Clean (d @ Separator # []) =
     (let s = (if hd d = Separator then [Separator] else []) @
              strings_Join (rev (rev es)) [Separator]
      in if s = [] then ''.'' else s)"
    unfolding Clean_unfold [OF assms(2) nil] es(4) [rule_format]
      foldl_names_slash [OF es(2)] ..
  also have "\<dots> = d"
    using es(3) assms(2) by (simp add: Let_def)
  finally show ?thesis by simp
qed

lemma Clean_prefix_name:
  assumes "cleanPrefix d" "d \<noteq> []" "Separator \<notin> set u" "isName u"
  shows "filepath_Clean (d @ Separator # u) = d @ Separator # u"
proof -
  obtain es where es: "es \<noteq> []" "list_all isName es"
    "d = (if hd d = Separator then [Separator] else []) @ strings_Join es [Separator]"
    "\<forall>u. foldl (cleanStep (hd d = Separator)) [] (strings_Split d Separator @ [u]) =
              foldl (cleanStep (hd d = Separator)) [] (es @ [u])"
    using cleanPrefix_elements [OF assms(1,2)] by blast
  have "filepath_Clean (d @ Separator # u) =
     (let s = (if hd d = Separator then [Separator] else []) @
              strings_Join (rev (u # rev es)) [Separator]
      in if s = [] then ''.'' else s)"
    unfolding Clean_unfold [OF assms(2,3)] es(4) [rule_format]
      foldl_names_name [OF es(2) assms(4)] ..
  also have "\<dots> = ((if hd d = Separator then [Separator] else []) @
                     strings_Join es [Separator]) @ Separator # u"
    using es(1) by (simp add: Let_def Join_snoc)
  also have "\<dots> = d @ Separator # u"
    using es(3) by simp
  finally show ?thesis .
qed

lemma Clean_root_elem:
  assumes "Separator \<notin> set u" "isName u"
  shows "filepath_Clean [Separator] = [Separator]"
    and "filepath_Clean (Separator # Separator # u) = Separator # u"
  using assms
  by (simp_all add: filepath_Clean_def Split_no_sep cleanStep_def isName_def)

lemma dropWhile_prefix_no_sep:
  "Separator \<notin> set xs \<Longrightarrow>
     dropWhile (\<lambda>c. c \<noteq> Separator) (xs @ Separator # ys) = Separator # ys"
  by (induction xs) auto

lemma takeWhile_prefix_no_sep:
  "Separator \<notin> set xs \<Longrightarrow>
     takeWhile (\<lambda>c. c \<noteq> Separator) (xs @ Separator # ys) = xs"
  by (induction xs) auto

lemma Dir_split:
  "Separator \<notin> set f \<Longrightarrow> filepath_Dir (d @ Separator # f) = filepath_Clean (d @ [Separator])"
  by (simp add: filepath_Dir_def dropWhile_prefix_no_sep)

lemma Base_split:
  assumes "Separator \<notin> set f" "f \<noteq> []"
  shows "filepath_Base (d @ Separator # f) = f"
proof -
  have 1: "dropWhile (\<lambda>c. c = Separator) (rev f @ Separator # rev d) = rev f @ Separator # rev d"
    using assms by (cases "rev f") auto
  show ?thesis
    using assms by (simp add: filepath_Base_def 1 takeWhile_prefix_no_sep)
qed

lemma dirPrefix_split:
  "Separator \<notin> set f \<Longrightarrow> dirPrefix (d @ Separator # f) = d"
  by (simp add: dirPrefix_def dropWhile_prefix_no_sep)

lemma lastSegment_split:
  "Separator \<notin> set f \<Longrightarrow> lastSegment (d @ Separator # f) = f"
  by (simp add: lastSegment_def takeWhile_prefix_no_sep)

lemma cleanPrefix_not_dot: "cleanPrefix d \<Longrightarrow> d \<noteq> ''.''"
  by (auto simp: cleanPrefix_def isName_def)

lemma uuid_leaf_name:
  assumes "Separator \<notin> set f"
  shows "isName (generatedUUID w @ ''_'' @ f)"
    and "Separator \<notin> set (generatedUUID w @ ''_'' @ f)"
proof -
  have l: "length (generatedUUID w) = 8"
    by (simp add: generatedUUID_def Sprintf_x_length)
  then obtain a b r where "generatedUUID w = a # b # r"
    by (cases "generatedUUID w"; cases "tl (generatedUUID w)") auto
  then show "isName (generatedUUID w @ ''_'' @ f)"
    using l by (auto simp: isName_def)
  show "Separator \<notin> set (generatedUUID w @ ''_'' @ f)"
    using assms Sprintf_x_set [of "map (rand_bytes w) [0..<4]"] ldigits_no_sep
    by (auto simp: generatedUUID_def)
qed

text \<open>
  Claim C4, amended. For a path \<open>d/f\<close> whose directory prefix \<open>d\<close> is in clean
  form (no empty element, no \<open>.\<close> and no \<open>..\<close>) and whose leaf \<open>f\<close> is not
  empty, the derived key is \<open>d/{uuid}_{f}\<close>: its prefix up to the final separator is
  \<open>d\<close> exactly and its last element is the new leaf.
\<close>

theorem directory_preserved:
  assumes "cleanPrefix d" and "f \<noteq> []" and "Separator \<notin> set f" and "\<not> rand_fails w"
  shows "generateUniqueObjectName w (d @ [Separator] @ f) =
           Inr (d @ [Separator] @ generatedUUID w @ ''_'' @ f) \<and>
         dirPrefix (d @ [Separator] @ f) = d \<and>
         lastSegment (d @ [Separator] @ f) = f \<and>
         dirPrefix (d @ [Separator] @ generatedUUID w @ ''_'' @ f) = d \<and>
         lastSegment (d @ [Separator] @ generatedUUID w @ ''_'' @ f) =
           generatedUUID w @ ''_'' @ f"
proof -
  let ?u = "generatedUUID w @ ''_'' @ f"
  note un = uuid_leaf_name [OF assms(3), of w]
  have uuid: "generateShortUUID w = Inr (generatedUUID w)"
    using assms(4) by (simp add: generateShortUUID_ok generatedUUID_def)
  have base: "filepath_Base (d @ Separator # f) = f"
    using assms by (simp add: Base_split)
  have gen: "generateUniqueObjectName w (d @ Separator # f) = Inr (d @ Separator # ?u)"
  proof (cases "d = []")
    case True
    have "filepath_Dir (Separator # f) = [Separator]"
      using Dir_split [of f "[]"] assms(3) Clean_root_elem(1) [OF un(2) un(1)] by simp
    then show ?thesis
      using True Clean_root_elem(2) [OF un(2) un(1)] base
      by (simp add: uniqueFilename_eq uuid)
  next
    case False
    have dir: "filepath_Dir (d @ Separator # f) = d"
      using Clean_prefix_slash [OF assms(1) False] assms(3)
      by (simp add: Dir_split)
    have nd: "d \<noteq> ''.''"
      using assms(1) by (rule cleanPrefix_not_dot)
    have "filepath_Join [d, ?u] = filepath_Clean (d @ Separator # ?u)"
      using False by simp
    also have "\<dots> = d @ Separator # ?u"
      using assms(1) False un(2) un(1) by (rule Clean_prefix_name)
    finally show ?thesis
      using dir nd base by (simp add: uniqueFilename_eq uuid)
  qed
  have p1: "dirPrefix (d @ Separator # f) = d"
    using assms(3) by (rule dirPrefix_split)
  have p2: "dirPrefix (d @ Separator # ?u) = d"
    using un(2) by (rule dirPrefix_split)
  have s1: "lastSegment (d @ Separator # f) = f"
    using assms(3) by (rule lastSegment_split)
  have s2: "lastSegment (d @ Separator # ?u) = ?u"
    using un(2) by (rule lastSegment_split)
  show ?thesis
    using gen p1 p2 s1 s2 by simp
qed

lemma uuid_exampleWorld: "generatedUUID exampleWorld = ''a1b20cd4''"
  by (simp add: generatedUUID_def exampleWorld_def fmt_Sprintf_x_def hexByte_def hexDigit_def
      ldigits_def upt_rec)

lemma exampleWorld_rand: "\<not> rand_fails exampleWorld"
  by (simp add: exampleWorld_def)

lemma uuid_ok_exampleWorld: "generateShortUUID exampleWorld = Inr ''a1b20cd4''"
  using generateShortUUID_ok [OF exampleWorld_rand] uuid_exampleWorld
  by (simp add: generatedUUID_def)

text \<open>
  Claim C4 as stated fails for a prefix that is not in clean form: the prefix of
  \<open>a//b.txt\<close> is \<open>a/\<close>, and the prefix of its key is \<open>a\<close>.
\<close>

theorem directory_not_preserved_counterexample:
  "dirPrefix ''a//b.txt'' = ''a/'' \<and>
   lastSegment ''a//b.txt'' = ''b.txt'' \<and>
   generateUniqueObjectName exampleWorld ''a//b.txt'' = Inr ''a/a1b20cd4_b.txt'' \<and>
   dirPrefix ''a/a1b20cd4_b.txt'' = ''a''"
proof -
  have 1: "dirPrefix ''a//b.txt'' = ''a/''"
    by (simp add: dirPrefix_def)
  have 2: "lastSegment ''a//b.txt'' = ''b.txt''"
    by (simp add: lastSegment_def)
  have d: "filepath_Dir ''a//b.txt'' = ''a''"
    by (simp add: filepath_Dir_def filepath_Clean_def cleanStep_def)
  have b: "filepath_Base ''a//b.txt'' = ''b.txt''"
    by (simp add: filepath_Base_def)
  have j: "filepath_Join [''a'', ''a1b20cd4_b.txt''] = ''a/a1b20cd4_b.txt''"
    by (simp add: filepath_Clean_def cleanStep_def)
  have 3: "generateUniqueObjectName exampleWorld ''a//b.txt'' = Inr ''a/a1b20cd4_b.txt''"
    using j by (simp add: uniqueFilename_eq uuid_ok_exampleWorld d b)
  have 4: "dirPrefix ''a/a1b20cd4_b.txt'' = ''a''"
    by (simp add: dirPrefix_def)
  show ?thesis
    using 1 2 3 4 by simp
qed

text \<open>
  The path \<open>users/123/contract.pdf\<close> in the example world.
\<close>

theorem directory_preserved_witness:
  "cleanPrefix ''users/123'' \<and> ''contract.pdf'' \<noteq> [] \<and>
   Separator \<notin> set ''contract.pdf'' \<and> \<not> rand_fails exampleWorld \<and>
   generateUniqueObjectName exampleWorld ''users/123/contract.pdf'' =
     Inr ''users/123/a1b20cd4_contract.pdf'' \<and>
   dirPrefix ''users/123/a1b20cd4_contract.pdf'' = ''users/123''"
proof -
  have c: "cleanPrefix ''users/123''"
    by (simp add: cleanPrefix_def isName_def)
  have n: "''contract.pdf'' \<noteq> []"
    by simp
  have s: "Separator \<notin> set ''contract.pdf''"
    by simp
  show ?thesis
    using directory_preserved [OF c n s exampleWorld_rand] c s exampleWorld_rand
    by (simp add: uuid_exampleWorld)
qed

text \<open>
  Claim C8 as stated fails for the empty path, which has no separator: its key ends in
  a dot, the base name that \<open>filepath.Base\<close> gives the empty path.
\<close>

theorem leaf_only_counterexample:
  "Separator \<notin> set [] \<and>
   generatedUUID exampleWorld = ''a1b20cd4'' \<and>
   generateUniqueObjectName exampleWorld [] = Inr ''a1b20cd4_.''"
proof -
  have d: "filepath_Dir [] = ''.''"
    by (simp add: filepath_Dir_def filepath_Clean_def)
  have b: "filepath_Base [] = ''.''"
    by (simp add: filepath_Base_def)
  show ?thesis
    by (simp add: uniqueFilename_eq uuid_ok_exampleWorld uuid_exampleWorld d b)
qed

text \<open>
  Claim C8, amended. For every path \<open>p\<close> that is not empty and has no separator,
  the derived key is the identifier, an underscore and \<open>p\<close> unchanged, with no
  separator in it. The identifier is the rendering of four random bytes: eight
  characters, each a lower-case hexadecimal digit. When the random source fails, the
  derivation fails.
\<close>

theorem leaf_only_inputs:
  assumes "Separator \<notin> set p" and "p \<noteq> []"
  shows "generateUniqueObjectName w p =
           (if rand_fails w then Inl (GenerateUUIDFailed RandReadFailed)
            else Inr (generatedUUID w @ ''_'' @ p)) \<and>
         generateShortUUID w =
           (if rand_fails w then Inl RandReadFailed
            else Inr (fmt_Sprintf_x (map (rand_bytes w) [0..<4]))) \<and>
         generatedUUID w = fmt_Sprintf_x (map (rand_bytes w) [0..<4]) \<and>
         length (generatedUUID w) = 8 \<and>
         set (generatedUUID w) \<subseteq> set ''0123456789abcdef'' \<and>
         Separator \<notin> set (generatedUUID w @ ''_'' @ p)"
proof -
  have 1: "generateUniqueObjectName w p =
           (if rand_fails w then Inl (GenerateUUIDFailed RandReadFailed)
            else Inr (generatedUUID w @ ''_'' @ p))"
    using assms
    by (simp add: uniqueFilename_eq Dir_no_sep Base_no_sep generateShortUUID_def rand_Read_def
        generatedUUID_def)
  have 2: "generateShortUUID w =
           (if rand_fails w then Inl RandReadFailed
            else Inr (fmt_Sprintf_x (map (rand_bytes w) [0..<4])))"
    by (simp add: generateShortUUID_def rand_Read_def)
  have 3: "length (generatedUUID w) = 8"
    by (simp add: generatedUUID_def Sprintf_x_length)
  have 4: "set (generatedUUID w) \<subseteq> set ''0123456789abcdef''"
    using Sprintf_x_set [of "map (rand_bytes w) [0..<4]"]
    by (simp only: ldigits_def generatedUUID_def)
  have 5: "Separator \<notin> set (generatedUUID w @ ''_'' @ p)"
    using assms(1) by (rule uuid_leaf_name(2))
  show ?thesis
    using 1 2 3 4 5 by (simp only: generatedUUID_def simp_thms)
qed

text \<open>
  The path \<open>contract.pdf\<close> in the example world.
\<close>

theorem leaf_only_inputs_witness:
  "Separator \<notin> set ''contract.pdf'' \<and> ''contract.pdf'' \<noteq> [] \<and>
   generateUniqueObjectName exampleWorld ''contract.pdf'' = Inr ''a1b20cd4_contract.pdf''"
proof -
  have s: "Separator \<notin> set ''contract.pdf''"
    by simp
  have n: "''contract.pdf'' \<noteq> []"
    by simp
  show ?thesis
    using leaf_only_inputs [OF s n, of exampleWorld] s exampleWorld_rand
    by (simp add: uuid_exampleWorld)
qed

section \<open>The upload operations on the example generator\<close>

lemma pdfGenerator_fields:
  "hasRestrictions pdfGenerator"
  "AllowedExtensions (uploadRestrictions pdfGenerator) = [''.pdf'']"
  "svcAccount pdfGenerator = Some exampleAccount"
  "bucketName pdfGenerator = ''docs''"
  "defaultExpiry pdfGenerator = 15 * time_Minute"
  by (simp_all add: pdfGenerator_def pdfOnly_def hasRestrictions_def)

lemma unique_a_pdf: "generateUniqueObjectName exampleWorld ''a.pdf'' = Inr ''a1b20cd4_a.pdf''"
  by (simp add: uniqueFilename_eq uuid_ok_exampleWorld Dir_no_sep Base_no_sep)

lemma unique_a_jpg: "generateUniqueObjectName exampleWorld ''a.jpg'' = Inr ''a1b20cd4_a.jpg''"
  by (simp add: uniqueFilename_eq uuid_ok_exampleWorld Dir_no_sep Base_no_sep)

lemma validate_pdfGenerator:
  "ValidateUpload exampleWorld pdfGenerator ''a.pdf'' = None"
  "ValidateUpload exampleWorld pdfGenerator ''a.jpg'' = Some (ExtensionNotAllowed ''.jpg'' [''.pdf''])"
  by (simp_all add: ValidateUpload_def pdfGenerator_fields Ext_a_pdf Ext_a_jpg lower_pdf
      lower_jpg)

lemma sign_exampleWorld:
  "storage_SignedURL exampleWorld b k opts = Some (''https://storage/'' @ b @ ''/'' @ k)"
  "time_Now exampleWorld = 1000"
  by (simp_all add: exampleWorld_def)

lemma WithExpiry_example:
  "GenerateSignedUploadURLWithExpiry exampleWorld pdfGenerator ''docs'' ''a.jpg''
     (15 * time_Minute) =
     ([(''docs'', ''a.jpg'',
        \<lparr>so_Method = ''PUT'', so_Expires = 900000001000,
         so_ContentType = ''application/octet-stream'', so_Headers = [],
         so_GoogleAccessID = ''svc@example.iam'', so_PrivateKey = ''KEY''\<rparr>)],
      Inr \<lparr>UploadURL = ''https://storage/docs/a.jpg'', ExpiresAt = 900000001000,
           GeneratedKey = ''a.jpg'', OriginalName = ''a.jpg''\<rparr>)"
  by (simp add: GenerateSignedUploadURLWithExpiry_def getServiceAccount_def
      pdfGenerator_fields sign_exampleWorld exampleAccount_def time_Minute_def)

text \<open>
  Claim C1 as stated fails for \<open>GenerateSignedUploadURLWithExpiry\<close>: the policy of
  \<open>pdfGenerator\<close> is active and \<open>GenerateSignedUploadURL\<close> rejects \<open>a.jpg\<close>
  before signing, while the variant signs \<open>a.jpg\<close> and returns it as the key.
\<close>

theorem upload_variants_counterexample:
  "hasRestrictions pdfGenerator \<and>
   GenerateSignedUploadURL exampleWorld pdfGenerator ''a.jpg'' =
     ([], Inl (ExtensionNotAllowed ''.jpg'' [''.pdf''])) \<and>
   GenerateSignedUploadURLWithExpiry exampleWorld pdfGenerator ''docs'' ''a.jpg''
     (15 * time_Minute) =
     ([(''docs'', ''a.jpg'',
        \<lparr>so_Method = ''PUT'', so_Expires = 900000001000,
         so_ContentType = ''application/octet-stream'', so_Headers = [],
         so_GoogleAccessID = ''svc@example.iam'', so_PrivateKey = ''KEY''\<rparr>)],
      Inr \<lparr>UploadURL = ''https://storage/docs/a.jpg'', ExpiresAt = 900000001000,
           GeneratedKey = ''a.jpg'', OriginalName = ''a.jpg''\<rparr>)"
proof -
  have "GenerateSignedUploadURL exampleWorld pdfGenerator ''a.jpg'' =
     ([], Inl (ExtensionNotAllowed ''.jpg'' [''.pdf'']))"
    by (simp add: GenerateSignedUploadURL_def unique_a_jpg pdfGenerator_fields
        validate_pdfGenerator)
  then show ?thesis
    using pdfGenerator_fields(1) WithExpiry_example by simp
qed

text \<open>
  The generator \<open>pdfGenerator\<close> in the example world, with the bucket \<open>other\<close>.
\<close>

theorem upload_variants_witness:
  "hasRestrictions pdfGenerator \<and>
   ValidateUpload exampleWorld pdfGenerator ''a.jpg'' = Some (ExtensionNotAllowed ''.jpg'' [''.pdf'']) \<and>
   \<not> rand_fails exampleWorld \<and>
   GenerateSignedUploadURLWithBucket exampleWorld pdfGenerator ''other'' ''a.jpg'' =
     ([], Inl (ExtensionNotAllowed ''.jpg'' [''.pdf''])) \<and>
   map_sum id GeneratedKey
     (snd (GenerateSignedUploadURLWithBucket exampleWorld pdfGenerator ''other'' ''a.pdf'')) =
     Inr ''a1b20cd4_a.pdf'' \<and>
   map_sum id GeneratedKey
     (snd (GenerateSignedUploadURLWithExpiry exampleWorld pdfGenerator ''other'' ''a.pdf''
             (15 * time_Minute))) = Inr ''a.pdf'' \<and>
   svcAccount pdfGenerator = Some exampleAccount \<and>
   length (fst (GenerateSignedUploadURLWithExpiry exampleWorld pdfGenerator ''other'' ''a.pdf''
             (15 * time_Minute))) = 1 \<and>
   snd (GenerateSignedUploadURLWithExpiry exampleWorld (pdfGenerator\<lparr>svcAccount := None\<rparr>)
          ''other'' ''a.pdf'' (15 * time_Minute)) = Inl ServiceAccountNotLoaded"
proof -
  let ?e = "ExtensionNotAllowed ''.jpg'' [''.pdf'']"
  let ?x = "15 * time_Minute"
  note t1 = upload_variants [of exampleWorld pdfGenerator "''other''" "''a.jpg''" ?e ?x]
  note t2 = upload_variants [of exampleWorld pdfGenerator "''other''" "''a.pdf''" ?e ?x]
  note t3 = upload_variants [of exampleWorld "pdfGenerator\<lparr>svcAccount := None\<rparr>"
      "''other''" "''a.pdf''" ?e ?x]
  have 1: "GenerateSignedUploadURLWithBucket exampleWorld pdfGenerator ''other'' ''a.jpg'' =
     ([], Inl ?e)"
    using t1 pdfGenerator_fields(1) validate_pdfGenerator(2) exampleWorld_rand by blast
  obtain up where up:
    "snd (GenerateSignedUploadURLWithBucket exampleWorld pdfGenerator ''other'' ''a.pdf'') = Inr up"
    by (simp add: GenerateSignedUploadURLWithBucket_def unique_a_pdf pdfGenerator_fields
        validate_pdfGenerator withNames_def generateUploadURLWithRestrictions_def
        getServiceAccount_def sign_exampleWorld Let_def)
  have "generateUniqueObjectName exampleWorld ''a.pdf'' = Inr (GeneratedKey up)"
    using t2 up by blast
  then have 2: "GeneratedKey up = ''a1b20cd4_a.pdf''"
    by (simp add: unique_a_pdf)
  obtain up' where up':
    "snd (GenerateSignedUploadURLWithExpiry exampleWorld pdfGenerator ''other'' ''a.pdf'' ?x) =
       Inr up'"
    by (simp add: GenerateSignedUploadURLWithExpiry_def getServiceAccount_def
        pdfGenerator_fields sign_exampleWorld Let_def)
  have 3: "GeneratedKey up' = ''a.pdf''"
    using t2 up' by blast
  have 4: "length (fst (GenerateSignedUploadURLWithExpiry exampleWorld pdfGenerator ''other''
             ''a.pdf'' ?x)) = 1"
    using t2 pdfGenerator_fields(3) by simp
  obtain err where err:
    "snd (GenerateSignedUploadURLWithExpiry exampleWorld (pdfGenerator\<lparr>svcAccount := None\<rparr>)
          ''other'' ''a.pdf'' ?x) = Inl err"
    by (simp add: GenerateSignedUploadURLWithExpiry_def getServiceAccount_def)
  have "err = ServiceAccountNotLoaded \<or> err = SignedUploadURLFailed"
    using t3 err by blast
  moreover have "err \<noteq> SignedUploadURLFailed"
    using err by (simp add: GenerateSignedUploadURLWithExpiry_def getServiceAccount_def)
  ultimately have 5: "err = ServiceAccountNotLoaded"
    by simp
  show ?thesis
    using 1 2 3 4 5 up up' err pdfGenerator_fields(1,3) validate_pdfGenerator(2)
      exampleWorld_rand
    by simp
qed

end
